theory Spec2Isabelle
  imports Complex_Main
begin

section \<open>Values exchanged with clients\<close>

text \<open>
  The model follows the second server of \<^verbatim>\<open>src/server.js\<close> (the one that keeps
  \<^verbatim>\<open>originalDuration\<close>, \<^verbatim>\<open>maxConnectionsAllowed\<close> and \<^verbatim>\<open>controllerToSocket\<close>).
  Identities are strings. Durations, second counts and \<^verbatim>\<open>Date.now()\<close> are JavaScript
  numbers in the source; the model takes them to be integers, so that
  \<^verbatim>\<open>Math.floor(x / 1000)\<close> is \<open>x div 1000\<close>. The limits a payload carries
  (\<^verbatim>\<open>maxConnectionsAllowed\<close>, \<^verbatim>\<open>maxTimersAllowed\<close>) are stored and compared as they
  come, with no check and no rounding, so they are kept as rationals: a payload can
  carry 0.5 or 1.5 as well as 4.
\<close>

type_synonym socketId = string
type_synonym timerId = string
type_synonym controllerId = string

text \<open>
  An optional numeric property of a payload: absent, \<^verbatim>\<open>null\<close>, or a number, whole
  or not.
\<close>

datatype optnum = Undefined | Null | Num rat

text \<open>\<^verbatim>\<open>a ?? b\<close> with a numeric fallback.\<close>

definition nullish :: "optnum \<Rightarrow> rat \<Rightarrow> rat" where
  "nullish a b = (case a of Num n \<Rightarrow> n | Null \<Rightarrow> b | Undefined \<Rightarrow> b)"

text \<open>A destructuring default \<^verbatim>\<open>{ p = d }\<close>: only \<^verbatim>\<open>undefined\<close> is replaced.\<close>

definition defaulted :: "optnum \<Rightarrow> rat \<Rightarrow> optnum" where
  "defaulted a d = (case a of Undefined \<Rightarrow> Num d | Null \<Rightarrow> Null | Num n \<Rightarrow> Num n)"

text \<open>\<^verbatim>\<open>size >= limit\<close>: \<^verbatim>\<open>null\<close> converts to 0, \<^verbatim>\<open>undefined\<close> to NaN.\<close>

definition size_ge :: "nat \<Rightarrow> optnum \<Rightarrow> bool" where
  "size_ge n bound = (case bound of Num m \<Rightarrow> m \<le> of_nat n | Null \<Rightarrow> True | Undefined \<Rightarrow> False)"

text \<open>\<^verbatim>\<open>a || b\<close> on strings: the empty string (like a missing property) is falsy.\<close>

definition or_str :: "string \<Rightarrow> string \<Rightarrow> string" where
  "or_str a b = (if a = [] then b else a)"

text \<open>A JavaScript \<^verbatim>\<open>Set\<close> of strings, in insertion order.\<close>

definition set_add :: "string \<Rightarrow> string list \<Rightarrow> string list" where
  "set_add x xs = (if x \<in> set xs then xs else xs @ [x])"

definition set_delete :: "string \<Rightarrow> string list \<Rightarrow> string list" where
  "set_delete x xs = removeAll x xs"

record styling =
  sty_backgroundColor :: string
  sty_textColor :: string
  sty_fontSize :: string
  sty_timerView :: string

text \<open>The object returned by \<^verbatim>\<open>Timer.getState\<close>.\<close>

record timerState =
  st_id :: timerId
  st_name :: string
  st_duration :: int
  st_remaining :: int
  st_isRunning :: bool
  st_message :: string
  st_backgroundColor :: string
  st_textColor :: string
  st_fontSize :: string
  st_isFlashing :: bool
  st_connectedCount :: nat
  st_styling :: styling

text \<open>An element of the array returned by \<^verbatim>\<open>getTimersForController\<close>.\<close>

record summary =
  sm_id :: timerId
  sm_name :: string
  sm_duration :: int
  sm_connectedCount :: nat

text \<open>
  Outbound notifications. \<open>TimerFull\<close> carries \<^verbatim>\<open>timerId\<close>, \<^verbatim>\<open>failedSocketId\<close> and
  \<^verbatim>\<open>isgood\<close>; \<open>LimitExceeded\<close> carries the optional \<^verbatim>\<open>timerId\<close>, the \<^verbatim>\<open>type\<close> and the
  number interpolated into the \<^verbatim>\<open>message\<close> text.
\<close>

datatype payload =
    TimerUpdate timerState
  | TimerJoined timerState
  | TimerCreated timerState
  | TimerList "summary list"
  | TimerNotFound timerId
  | TimerFull timerId socketId bool
  | TimerDeleted timerId
  | LimitExceeded "timerId option" string optnum

type_synonym emit = "socketId \<times> payload"

section \<open>The Timer class\<close>

text \<open>
  \<open>interval\<close> tells whether the timer holds a handle of \<^verbatim>\<open>setInterval\<close>;
  \<open>startTime\<close> and \<open>controllerId\<close> are \<^verbatim>\<open>null\<close> when \<open>None\<close>;
  \<open>connectedDevices\<close> is the \<^verbatim>\<open>Set\<close> of socket ids.
\<close>

record timer =
  id_t :: timerId
  name :: string
  duration :: int
  originalDuration :: int
  remaining :: int
  isRunning :: bool
  maxConnectionsAllowed :: rat
  maxTimersAllowed :: rat
  startTime :: "int option"
  message :: string
  backgroundColor :: string
  textColor :: string
  fontSize :: string
  isFlashing :: bool
  connectedDevices :: "socketId list"
  interval :: bool
  controllerId :: "controllerId option"
  timerView :: string

definition new_Timer :: "timerId \<Rightarrow> string \<Rightarrow> int \<Rightarrow> optnum \<Rightarrow> optnum \<Rightarrow> timer" where
  "new_Timer i n d maxConns maxTimers =
     \<lparr> id_t = i, name = n, duration = d, originalDuration = d, remaining = d,
       isRunning = False,
       maxConnectionsAllowed = nullish maxConns 4,
       maxTimersAllowed = nullish maxTimers 3,
       startTime = None, message = [],
       backgroundColor = ''#1f2937'', textColor = ''#ffffff'', fontSize = ''text-6xl'',
       isFlashing = False, connectedDevices = [], interval = False,
       controllerId = None, timerView = ''normal'' \<rparr>"

definition getState :: "timer \<Rightarrow> timerState" where
  "getState t =
     \<lparr> st_id = id_t t, st_name = name t, st_duration = duration t,
       st_remaining = remaining t, st_isRunning = isRunning t, st_message = message t,
       st_backgroundColor = backgroundColor t, st_textColor = textColor t,
       st_fontSize = fontSize t, st_isFlashing = isFlashing t,
       st_connectedCount = length (connectedDevices t),
       st_styling = \<lparr> sty_backgroundColor = backgroundColor t, sty_textColor = textColor t,
                      sty_fontSize = fontSize t,
                      sty_timerView = or_str (timerView t) ''normal'' \<rparr> \<rparr>"

text \<open>
  \<^verbatim>\<open>Math.floor((Date.now() - this.startTime) / 1000)\<close>; a \<^verbatim>\<open>null\<close> start time
  counts as 0 in the subtraction.
\<close>

definition elapsed :: "int \<Rightarrow> timer \<Rightarrow> int" where
  "elapsed now t = (now - (case startTime t of None \<Rightarrow> 0 | Some s \<Rightarrow> s)) div 1000"

text \<open>
  The \<^verbatim>\<open>forEach\<close> of \<^verbatim>\<open>update\<close> over the devices still to visit: a device whose
  socket is in \<^verbatim>\<open>io.sockets.sockets\<close> (the set \<open>socks\<close>) is sent the state as it is at
  that moment, any other is deleted from the set.
\<close>

fun forEachDevice :: "socketId set \<Rightarrow> socketId list \<Rightarrow> timer \<Rightarrow> timer \<times> emit list" where
  "forEachDevice socks [] t = (t, [])"
| "forEachDevice socks (d # ds) t =
     (if d \<in> socks then
        (case forEachDevice socks ds t of
           (t', es) \<Rightarrow> (t', (d, TimerUpdate (getState t)) # es))
      else forEachDevice socks ds
             (t\<lparr>connectedDevices := set_delete d (connectedDevices t)\<rparr>))"

definition update :: "int \<Rightarrow> socketId set \<Rightarrow> timer \<Rightarrow> timer \<times> emit list" where
  "update now socks t =
     (let t1 = (if isRunning t \<and> startTime t \<noteq> None \<and> startTime t \<noteq> Some 0
                then t\<lparr>remaining := duration t - elapsed now t\<rparr> else t)
      in forEachDevice socks (connectedDevices t1) t1)"

definition clearTick :: "timer \<Rightarrow> timer" where
  "clearTick t = (if interval t then t\<lparr>interval := False\<rparr> else t)"

definition start :: "int \<Rightarrow> socketId set \<Rightarrow> timer \<Rightarrow> timer \<times> emit list" where
  "start now socks t =
     (if \<not> isRunning t \<and> remaining t > 0
      then update now socks (t\<lparr>isRunning := True, startTime := Some now, interval := True\<rparr>)
      else (t, []))"

definition pause :: "int \<Rightarrow> socketId set \<Rightarrow> timer \<Rightarrow> timer \<times> emit list" where
  "pause now socks t =
     (if isRunning t then
        (let t1 = t\<lparr>isRunning := False\<rparr>;
             t2 = t1\<lparr>remaining := duration t1 - elapsed now t1\<rparr>;
             t3 = t2\<lparr>duration := \<bar>remaining t2\<bar>\<rparr>
         in update now socks (clearTick t3))
      else (t, []))"

definition reset :: "int \<Rightarrow> socketId set \<Rightarrow> timer \<Rightarrow> timer \<times> emit list" where
  "reset now socks t =
     update now socks
       (clearTick (t\<lparr>isRunning := False, duration := originalDuration t,
                     remaining := originalDuration t, startTime := None\<rparr>))"

definition setDuration :: "int \<Rightarrow> int \<Rightarrow> socketId set \<Rightarrow> timer \<Rightarrow> timer \<times> emit list" where
  "setDuration d now socks t =
     update now socks
       (clearTick (t\<lparr>duration := d, originalDuration := d, remaining := d,
                     isRunning := False, startTime := None\<rparr>))"

definition adjustTime :: "int \<Rightarrow> int \<Rightarrow> socketId set \<Rightarrow> timer \<Rightarrow> timer \<times> emit list" where
  "adjustTime seconds now socks t =
     (let newDuration = max 0 (duration t + seconds) in
      if isRunning t then
        (let t1 = t\<lparr>duration := newDuration\<rparr>;
             t2 = t1\<lparr>remaining := max 0 (duration t1 - elapsed now t)\<rparr>;
             t3 = (if remaining t2 \<le> 0
                   then (clearTick (t2\<lparr>isRunning := False\<rparr>))\<lparr>startTime := None\<rparr>
                   else t2)
         in update now socks t3)
      else setDuration newDuration now socks t)"

definition addDevice :: "socketId \<Rightarrow> int \<Rightarrow> socketId set \<Rightarrow> timer \<Rightarrow> bool \<times> timer \<times> emit list" where
  "addDevice deviceId now socks t =
     (if of_nat (length (connectedDevices t)) < maxConnectionsAllowed t
      then (case update now socks (t\<lparr>connectedDevices := set_add deviceId (connectedDevices t)\<rparr>) of
              (t', es) \<Rightarrow> (True, t', es))
      else (False, t, []))"

definition removeDevice :: "socketId \<Rightarrow> int \<Rightarrow> socketId set \<Rightarrow> timer \<Rightarrow> timer \<times> emit list" where
  "removeDevice deviceId now socks t =
     update now socks (t\<lparr>connectedDevices := set_delete deviceId (connectedDevices t)\<rparr>)"

definition updateMessage :: "string \<Rightarrow> int \<Rightarrow> socketId set \<Rightarrow> timer \<Rightarrow> timer \<times> emit list" where
  "updateMessage m now socks t = update now socks (t\<lparr>message := m\<rparr>)"

definition clearMessage :: "int \<Rightarrow> socketId set \<Rightarrow> timer \<Rightarrow> timer \<times> emit list" where
  "clearMessage now socks t = update now socks (t\<lparr>message := []\<rparr>)"

definition updateStyling :: "styling \<Rightarrow> int \<Rightarrow> socketId set \<Rightarrow> timer \<Rightarrow> timer \<times> emit list" where
  "updateStyling sty now socks t =
     update now socks
       (t\<lparr>backgroundColor := or_str (sty_backgroundColor sty) (backgroundColor t),
          textColor := or_str (sty_textColor sty) (textColor t),
          fontSize := or_str (sty_fontSize sty) (fontSize t),
          timerView := or_str (sty_timerView sty) (timerView t)\<rparr>)"

definition toggleFlash :: "bool \<Rightarrow> int \<Rightarrow> socketId set \<Rightarrow> timer \<Rightarrow> timer \<times> emit list" where
  "toggleFlash f now socks t = update now socks (t\<lparr>isFlashing := f\<rparr>)"

section \<open>The registries and the event handlers\<close>

text \<open>
  The four global maps of the module, and \<open>sockets\<close>, the keys of
  \<^verbatim>\<open>io.sockets.sockets\<close> (the sockets that are connected). A \<^verbatim>\<open>Set\<close> value is kept
  as the list of its elements in insertion order. A handler takes the id of the socket
  it was registered on and the value of \<^verbatim>\<open>Date.now()\<close>, and returns the new state
  with the notifications it emitted, in order.
\<close>

record server =
  timers :: "timerId \<rightharpoonup> timer"
  deviceToTimer :: "socketId \<rightharpoonup> timerId"
  controllerTimers :: "controllerId \<rightharpoonup> timerId list"
  controllerToSocket :: "controllerId \<rightharpoonup> socketId list"
  sockets :: "socketId set"

definition init :: server where
  "init = \<lparr> timers = Map.empty, deviceToTimer = Map.empty, controllerTimers = Map.empty,
            controllerToSocket = Map.empty, sockets = {} \<rparr>"

text \<open>\<^verbatim>\<open>m.get(k) || new Set()\<close>.\<close>

definition get_or_empty :: "(string \<rightharpoonup> string list) \<Rightarrow> string \<Rightarrow> string list" where
  "get_or_empty m k = (case m k of None \<Rightarrow> [] | Some xs \<Rightarrow> xs)"

text \<open>\<^verbatim>\<open>if (!m.has(k)) m.set(k, new Set()); m.get(k).add(x)\<close>.\<close>

definition add_to :: "(string \<rightharpoonup> string list) \<Rightarrow> string \<Rightarrow> string \<Rightarrow> (string \<rightharpoonup> string list)" where
  "add_to m k x = m(k \<mapsto> set_add x (get_or_empty m k))"

definition summarise :: "timer \<Rightarrow> summary" where
  "summarise t = \<lparr> sm_id = id_t t, sm_name = name t, sm_duration = duration t,
                   sm_connectedCount = length (connectedDevices t) \<rparr>"

text \<open>\<^verbatim>\<open>.filter(Boolean)\<close> on an array of objects and \<^verbatim>\<open>null\<close>s.\<close>

fun filter_Boolean :: "'a option list \<Rightarrow> 'a list" where
  "filter_Boolean [] = []"
| "filter_Boolean (None # xs) = filter_Boolean xs"
| "filter_Boolean (Some x # xs) = x # filter_Boolean xs"

definition getTimersForController :: "controllerId \<Rightarrow> server \<Rightarrow> summary list" where
  "getTimersForController c s =
     filter_Boolean
       (map (\<lambda>i. case timers s i of None \<Rightarrow> None | Some t \<Rightarrow> Some (summarise t))
            (get_or_empty (controllerTimers s) c))"

definition emitTimerListForController :: "socketId \<Rightarrow> controllerId \<Rightarrow> server \<Rightarrow> emit list" where
  "emitTimerListForController sock c s = [(sock, TimerList (getTimersForController c s))]"

text \<open>
  The \<^verbatim>\<open>limit-exceeded\<close> loop of \<^verbatim>\<open>join-timer\<close> and \<^verbatim>\<open>view-timer\<close>: one
  notification to each socket tracked under the timer's controller that is still
  connected. \<open>n\<close> is the number shown in the message.
\<close>

definition notifyController :: "timerId \<Rightarrow> rat \<Rightarrow> timer \<Rightarrow> server \<Rightarrow> emit list" where
  "notifyController timerId n t s =
     map (\<lambda>c. (c, LimitExceeded (Some timerId) ''viewers'' (Num n)))
       (filter (\<lambda>c. c \<in> sockets s)
          (case controllerId t of None \<Rightarrow> []
           | Some owner \<Rightarrow> get_or_empty (controllerToSocket s) owner))"

definition on_join_timer ::
  "socketId \<Rightarrow> int \<Rightarrow> timerId \<Rightarrow> controllerId \<Rightarrow> optnum \<Rightarrow> server \<Rightarrow> server \<times> emit list" where
  "on_join_timer sock now timerId c maxConns s =
     (if c = [] then (s, [])
      else case timers s timerId of
        None \<Rightarrow> (s, [(sock, TimerNotFound timerId)])
      | Some t \<Rightarrow>
          (let t1 = t\<lparr>maxConnectionsAllowed := nullish maxConns (maxConnectionsAllowed t)\<rparr> in
           case addDevice sock now (sockets s) t1 of
             (True, t2, es) \<Rightarrow>
               (let s' = s\<lparr>timers := (timers s)(timerId \<mapsto> t2),
                           deviceToTimer := (deviceToTimer s)(sock \<mapsto> timerId),
                           controllerToSocket := add_to (controllerToSocket s) c sock\<rparr>
                in (s', es @ [(sock, TimerJoined (getState t2))]
                          @ (if controllerId t2 = Some c
                             then emitTimerListForController sock c s' else [])))
           | (False, t2, es) \<Rightarrow>
               (let s' = s\<lparr>timers := (timers s)(timerId \<mapsto> t2)\<rparr>
                in (s', es @ [(sock, TimerFull timerId sock False)]
                          @ notifyController timerId (maxConnectionsAllowed t2) t2 s'))))"

definition on_view_timer ::
  "socketId \<Rightarrow> int \<Rightarrow> timerId \<Rightarrow> controllerId \<Rightarrow> optnum \<Rightarrow> server \<Rightarrow> server \<times> emit list" where
  "on_view_timer sock now timerId c maxConns s =
     (if c = [] then (s, [])
      else case timers s timerId of
        None \<Rightarrow> (s, [(sock, TimerNotFound timerId)])
      | Some t \<Rightarrow>
          (let t1 = t\<lparr>maxConnectionsAllowed := nullish maxConns (maxConnectionsAllowed t)\<rparr> in
           case addDevice sock now (sockets s) t1 of
             (True, t2, es) \<Rightarrow>
               (let s' = s\<lparr>timers := (timers s)(timerId \<mapsto> t2),
                           deviceToTimer := (deviceToTimer s)(sock \<mapsto> timerId),
                           controllerToSocket := add_to (controllerToSocket s) c sock\<rparr>
                in (s', es @ [(sock, TimerJoined (getState t2))]))
           | (False, t2, es) \<Rightarrow>
               (let s' = s\<lparr>timers := (timers s)(timerId \<mapsto> t2)\<rparr>
                in (s', es @ [(sock, TimerFull timerId sock True)]
                          @ notifyController timerId (maxConnectionsAllowed t2 - 1) t2 s'))))"

text \<open>
  \<open>gid\<close> is the string that \<^verbatim>\<open>generateId()\<close> returns in this call (it is built from
  the clock and \<^verbatim>\<open>Math.random()\<close>); \<open>sty\<close> is \<open>None\<close> when the payload has
  no \<^verbatim>\<open>styling\<close>. \<open>fresh_timer\<close> is the object as the handler has it before it
  enters the registry: constructed, given its controller, then styled.
\<close>

definition fresh_timer ::
  "timerId \<Rightarrow> string \<Rightarrow> int \<Rightarrow> optnum \<Rightarrow> optnum \<Rightarrow> controllerId \<Rightarrow> styling option \<Rightarrow> timer" where
  "fresh_timer gid nm d maxConns maxTimers c sty =
     (let t0 = (new_Timer gid nm d maxConns maxTimers)\<lparr>controllerId := Some c\<rparr>
      in case sty of
           None \<Rightarrow> t0
         | Some y \<Rightarrow>
             t0\<lparr>backgroundColor := or_str (sty_backgroundColor y) (backgroundColor t0),
                textColor := or_str (sty_textColor y) (textColor t0),
                fontSize := or_str (sty_fontSize y) (fontSize t0),
                timerView := or_str (sty_timerView y) ''normal''\<rparr>)"

definition on_create_timer ::
  "socketId \<Rightarrow> int \<Rightarrow> timerId \<Rightarrow> string \<Rightarrow> int \<Rightarrow> optnum \<Rightarrow> optnum \<Rightarrow> controllerId
     \<Rightarrow> styling option \<Rightarrow> server \<Rightarrow> server \<times> emit list" where
  "on_create_timer sock now gid nm d maxConns maxTimers c sty s =
     (if c = [] then (s, [])
      else
        (let maxConns' = defaulted maxConns 4;
             maxTimers' = defaulted maxTimers 3;
             currentTimers = get_or_empty (controllerTimers s) c
         in if size_ge (length currentTimers) maxTimers'
            then (s, [(sock, LimitExceeded None ''timers'' maxTimers')])
            else
              (case addDevice sock now (sockets s)
                      (fresh_timer gid nm d maxConns' maxTimers' c sty) of
                 (wasAdded, t2, es) \<Rightarrow>
                   (let s' = s\<lparr>timers := (timers s)(gid \<mapsto> t2),
                               controllerTimers := add_to (controllerTimers s) c gid,
                               deviceToTimer := (deviceToTimer s)(sock \<mapsto> gid),
                               controllerToSocket := add_to (controllerToSocket s) c sock\<rparr>
                    in (s', es @ emitTimerListForController sock c s'
                              @ [(sock, TimerCreated (getState t2))])))))"

definition on_get_timers :: "socketId \<Rightarrow> controllerId \<Rightarrow> server \<Rightarrow> server \<times> emit list" where
  "on_get_timers sock c s =
     (if c = [] then (s, []) else (s, emitTimerListForController sock c s))"

definition on_delete_timer ::
  "socketId \<Rightarrow> timerId \<Rightarrow> controllerId \<Rightarrow> server \<Rightarrow> server \<times> emit list" where
  "on_delete_timer sock timerId c s =
     (if c = [] then (s, [])
      else case timers s timerId of
        None \<Rightarrow> (s, [])
      | Some t \<Rightarrow>
          if controllerId t = Some c then
            (let es = map (\<lambda>d. (d, TimerDeleted timerId))
                          (filter (\<lambda>d. d \<in> sockets s) (connectedDevices t));
                 s' = s\<lparr>timers := (timers s)(timerId := None),
                         deviceToTimer :=
                           (\<lambda>d. if d \<in> set (connectedDevices t) then None
                                 else deviceToTimer s d),
                         controllerTimers :=
                           (case controllerTimers s c of
                              None \<Rightarrow> controllerTimers s
                            | Some ids \<Rightarrow> (controllerTimers s)(c \<mapsto> set_delete timerId ids))\<rparr>
             in (s', es @ emitTimerListForController sock c s'))
          else (s, []))"

text \<open>
  The nine control handlers have one shape: guard on the controller id, look the timer
  up, compare its owner, call one method, emit the caller's timer list.
\<close>

definition control ::
  "(timer \<Rightarrow> timer \<times> emit list) \<Rightarrow> socketId \<Rightarrow> timerId \<Rightarrow> controllerId \<Rightarrow> server
     \<Rightarrow> server \<times> emit list" where
  "control method sock timerId c s =
     (if c = [] then (s, [])
      else case timers s timerId of
        None \<Rightarrow> (s, [])
      | Some t \<Rightarrow>
          if controllerId t = Some c then
            (case method t of
               (t', es) \<Rightarrow>
                 (let s' = s\<lparr>timers := (timers s)(timerId \<mapsto> t')\<rparr>
                  in (s', es @ emitTimerListForController sock c s')))
          else (s, []))"

text \<open>
  The handler of \<^verbatim>\<open>disconnect\<close>. It runs after the socket has left
  \<^verbatim>\<open>io.sockets.sockets\<close>. An empty timer id in \<^verbatim>\<open>deviceToTimer\<close> is falsy.
\<close>

definition on_disconnect :: "socketId \<Rightarrow> int \<Rightarrow> server \<Rightarrow> server \<times> emit list" where
  "on_disconnect sock now s =
     (let (s1, es) =
            (case deviceToTimer s sock of
               None \<Rightarrow> (s, [])
             | Some timerId \<Rightarrow>
                 if timerId = [] then (s, [])
                 else
                   (case timers s timerId of
                      None \<Rightarrow> (s\<lparr>deviceToTimer := (deviceToTimer s)(sock := None)\<rparr>, [])
                    | Some t \<Rightarrow>
                        (case removeDevice sock now (sockets s) t of
                           (t', es) \<Rightarrow>
                             (s\<lparr>timers := (timers s)(timerId \<mapsto> t'),
                                deviceToTimer := (deviceToTimer s)(sock := None)\<rparr>, es))))
      in (s1\<lparr>controllerToSocket :=
               (\<lambda>c. case controllerToSocket s1 c of
                       None \<Rightarrow> None
                     | Some ids \<Rightarrow>
                         if sock \<in> set ids
                         then (if set_delete sock ids = [] then None
                               else Some (set_delete sock ids))
                         else Some ids)\<rparr>, es))"

text \<open>What a client can send; every payload is an object with the fields of the handler.\<close>

datatype command =
    JoinTimer timerId controllerId optnum
  | ViewTimer timerId controllerId optnum
  | CreateTimer string int optnum optnum controllerId "styling option"
  | GetTimers controllerId
  | DeleteTimer timerId controllerId
  | SetTimer timerId int controllerId
  | StartTimer timerId controllerId
  | PauseTimer timerId controllerId
  | ResetTimer timerId controllerId
  | AdjustTimer timerId int controllerId
  | UpdateMessage timerId string controllerId
  | ClearMessage timerId controllerId
  | UpdateStyling timerId styling controllerId
  | ToggleFlash timerId bool controllerId

fun handle :: "command \<Rightarrow> socketId \<Rightarrow> int \<Rightarrow> timerId \<Rightarrow> server \<Rightarrow> server \<times> emit list" where
  "handle (JoinTimer i c m) sock now gid s = on_join_timer sock now i c m s"
| "handle (ViewTimer i c m) sock now gid s = on_view_timer sock now i c m s"
| "handle (CreateTimer nm d m mt c sty) sock now gid s =
     on_create_timer sock now gid nm d m mt c sty s"
| "handle (GetTimers c) sock now gid s = on_get_timers sock c s"
| "handle (DeleteTimer i c) sock now gid s = on_delete_timer sock i c s"
| "handle (SetTimer i d c) sock now gid s = control (setDuration d now (sockets s)) sock i c s"
| "handle (StartTimer i c) sock now gid s = control (start now (sockets s)) sock i c s"
| "handle (PauseTimer i c) sock now gid s = control (pause now (sockets s)) sock i c s"
| "handle (ResetTimer i c) sock now gid s = control (reset now (sockets s)) sock i c s"
| "handle (AdjustTimer i n c) sock now gid s = control (adjustTime n now (sockets s)) sock i c s"
| "handle (UpdateMessage i m c) sock now gid s = control (updateMessage m now (sockets s)) sock i c s"
| "handle (ClearMessage i c) sock now gid s = control (clearMessage now (sockets s)) sock i c s"
| "handle (UpdateStyling i y c) sock now gid s = control (updateStyling y now (sockets s)) sock i c s"
| "handle (ToggleFlash i f c) sock now gid s = control (toggleFlash f now (sockets s)) sock i c s"

section \<open>Runs of the server\<close>

text \<open>
  What can happen to the process: a socket connects, a connected socket sends a
  command, a connected socket disconnects, or the interval of a timer fires.
  \<open>Message\<close> carries the clock and the id that \<^verbatim>\<open>generateId()\<close> would return.
\<close>

datatype event =
    Connect socketId
  | Message socketId int timerId command
  | Disconnect socketId int
  | Tick timerId int

fun step :: "event \<Rightarrow> server \<Rightarrow> server \<times> emit list" where
  "step (Connect sock) s = (s\<lparr>sockets := insert sock (sockets s)\<rparr>, [])"
| "step (Message sock now gid cmd) s = handle cmd sock now gid s"
| "step (Disconnect sock now) s = on_disconnect sock now (s\<lparr>sockets := sockets s - {sock}\<rparr>)"
| "step (Tick timerId now) s =
     (case timers s timerId of
        None \<Rightarrow> (s, [])
      | Some t \<Rightarrow>
          (case update now (sockets s) t of
             (t', es) \<Rightarrow> (s\<lparr>timers := (timers s)(timerId \<mapsto> t')\<rparr>, es)))"

text \<open>
  The assumptions on the environment: socket ids are those of connected sockets, a
  new connection has a new id, \<^verbatim>\<open>generateId()\<close> returns a non-empty id that no timer
  in the registry has, and an interval fires only while its timer holds it.
\<close>

fun allowed :: "event \<Rightarrow> server \<Rightarrow> bool" where
  "allowed (Connect sock) s = (sock \<notin> sockets s)"
| "allowed (Message sock now gid cmd) s =
     (sock \<in> sockets s \<and> gid \<noteq> [] \<and> timers s gid = None)"
| "allowed (Disconnect sock now) s = (sock \<in> sockets s)"
| "allowed (Tick timerId now) s =
     (case timers s timerId of None \<Rightarrow> False | Some t \<Rightarrow> interval t)"

inductive reachable :: "server \<Rightarrow> bool" where
  reachable_init: "reachable init"
| reachable_step: "reachable s \<Longrightarrow> allowed e s \<Longrightarrow> reachable (fst (step e s))"

fun run :: "event list \<Rightarrow> server \<Rightarrow> server" where
  "run [] s = s"
| "run (e # es) s = run es (fst (step e s))"

text \<open>A run is admissible when each of its events is allowed where it happens.\<close>

fun allowedRun :: "event list \<Rightarrow> server \<Rightarrow> bool" where
  "allowedRun [] s = True"
| "allowedRun (e # es) s = (allowed e s \<and> allowedRun es (fst (step e s)))"

section \<open>Sequences of method calls on one timer\<close>

text \<open>
  Every method of the class but \<^verbatim>\<open>setDuration\<close>, to speak of what happens between a
  \<^verbatim>\<open>setDuration\<close> and a \<^verbatim>\<open>reset\<close>. A call comes with the clock and the connected
  sockets at that moment.
\<close>

datatype call =
    CallStart
  | CallPause
  | CallReset
  | CallAdjustTime int
  | CallUpdate
  | CallAddDevice socketId
  | CallRemoveDevice socketId
  | CallUpdateMessage string
  | CallClearMessage
  | CallUpdateStyling styling
  | CallToggleFlash bool

fun invoke :: "call \<Rightarrow> int \<Rightarrow> socketId set \<Rightarrow> timer \<Rightarrow> timer" where
  "invoke CallStart now socks t = fst (start now socks t)"
| "invoke CallPause now socks t = fst (pause now socks t)"
| "invoke CallReset now socks t = fst (reset now socks t)"
| "invoke (CallAdjustTime n) now socks t = fst (adjustTime n now socks t)"
| "invoke CallUpdate now socks t = fst (update now socks t)"
| "invoke (CallAddDevice d) now socks t = fst (snd (addDevice d now socks t))"
| "invoke (CallRemoveDevice d) now socks t = fst (removeDevice d now socks t)"
| "invoke (CallUpdateMessage m) now socks t = fst (updateMessage m now socks t)"
| "invoke CallClearMessage now socks t = fst (clearMessage now socks t)"
| "invoke (CallUpdateStyling y) now socks t = fst (updateStyling y now socks t)"
| "invoke (CallToggleFlash f) now socks t = fst (toggleFlash f now socks t)"

fun invokeAll :: "(call \<times> int \<times> socketId set) list \<Rightarrow> timer \<Rightarrow> timer" where
  "invokeAll [] t = t"
| "invokeAll ((c, now, socks) # cs) t = invokeAll cs (invoke c now socks t)"

text \<open>Every \<^verbatim>\<open>adjustTime\<close> of the sequence finds the timer running.\<close>

fun adjustsWhileRunning :: "(call \<times> int \<times> socketId set) list \<Rightarrow> timer \<Rightarrow> bool" where
  "adjustsWhileRunning [] t = True"
| "adjustsWhileRunning ((c, now, socks) # cs) t =
     ((case c of CallAdjustTime n \<Rightarrow> isRunning t | _ \<Rightarrow> True)
      \<and> adjustsWhileRunning cs (invoke c now socks t))"

section \<open>Properties of states and events\<close>

text \<open>Every timer holds no more devices than its capacity.\<close>

definition withinCapacity :: "server \<Rightarrow> bool" where
  "withinCapacity s =
     (\<forall>i t. timers s i = Some t \<longrightarrow>
        of_nat (length (connectedDevices t)) \<le> maxConnectionsAllowed t)"

text \<open>A number with no fractional part.\<close>

definition whole :: "rat \<Rightarrow> bool" where
  "whole m = (of_int \<lfloor>m\<rfloor> = m)"

text \<open>Every timer has a whole number as its capacity.\<close>

definition wholeCapacities :: "server \<Rightarrow> bool" where
  "wholeCapacities s =
     (\<forall>i t. timers s i = Some t \<longrightarrow> whole (maxConnectionsAllowed t))"

text \<open>A timer whose capacity is whole and not below the number of its devices.\<close>

definition fits :: "timer \<Rightarrow> bool" where
  "fits t = (whole (maxConnectionsAllowed t)
             \<and> of_nat (length (connectedDevices t)) \<le> maxConnectionsAllowed t)"

text \<open>
  The events that leave capacities whole and at or above the current counts: a
  \<^verbatim>\<open>join-timer\<close> or \<^verbatim>\<open>view-timer\<close> whose \<^verbatim>\<open>maxConnectionsAllowed\<close>, if it is a
  number and the timer exists, is whole and not below the number of devices the timer
  already has, and a \<^verbatim>\<open>create-timer\<close> whose \<^verbatim>\<open>maxConnectionsAllowed\<close>, if it is a
  number, is whole and not negative. Every other event qualifies.
\<close>

definition coversCount :: "timerId \<Rightarrow> optnum \<Rightarrow> server \<Rightarrow> bool" where
  "coversCount i m s =
     (case m of
        Num n \<Rightarrow> (case timers s i of None \<Rightarrow> True
                  | Some t \<Rightarrow> whole n \<and> of_nat (length (connectedDevices t)) \<le> n)
      | Null \<Rightarrow> True
      | Undefined \<Rightarrow> True)"

fun respectsCount :: "event \<Rightarrow> server \<Rightarrow> bool" where
  "respectsCount (Message sock now gid (JoinTimer i c m)) s = coversCount i m s"
| "respectsCount (Message sock now gid (ViewTimer i c m)) s = coversCount i m s"
| "respectsCount (Message sock now gid (CreateTimer nm d m mt c sty)) s =
     (case m of Num n \<Rightarrow> whole n \<and> 0 \<le> n | Null \<Rightarrow> True | Undefined \<Rightarrow> True)"
| "respectsCount e s = True"

fun respectsCountRun :: "event list \<Rightarrow> server \<Rightarrow> bool" where
  "respectsCountRun [] s = True"
| "respectsCountRun (e # es) s = (respectsCount e s \<and> respectsCountRun es (fst (step e s)))"

text \<open>
  Every id in a controller's set of \<^verbatim>\<open>controllerTimers\<close> is the id of a timer of the
  registry that this controller owns.
\<close>

definition ownedConsistent :: "server \<Rightarrow> bool" where
  "ownedConsistent s =
     (\<forall>c i. i \<in> set (get_or_empty (controllerTimers s) c) \<longrightarrow>
        (\<exists>t. timers s i = Some t \<and> controllerId t = Some c \<and> id_t t = i))"


text \<open>
  The timer and the controller id that a mutating command names (start, pause, reset,
  set, adjust, the two message commands, styling, flash and delete).
\<close>

fun mutates :: "command \<Rightarrow> (timerId \<times> controllerId) option" where
  "mutates (JoinTimer i c m) = None"
| "mutates (ViewTimer i c m) = None"
| "mutates (CreateTimer nm d m mt c sty) = None"
| "mutates (GetTimers c) = None"
| "mutates (DeleteTimer i c) = Some (i, c)"
| "mutates (SetTimer i d c) = Some (i, c)"
| "mutates (StartTimer i c) = Some (i, c)"
| "mutates (PauseTimer i c) = Some (i, c)"
| "mutates (ResetTimer i c) = Some (i, c)"
| "mutates (AdjustTimer i n c) = Some (i, c)"
| "mutates (UpdateMessage i m c) = Some (i, c)"
| "mutates (ClearMessage i c) = Some (i, c)"
| "mutates (UpdateStyling i y c) = Some (i, c)"
| "mutates (ToggleFlash i f c) = Some (i, c)"


section \<open>Example runs\<close>

text \<open>Socket \<open>a\<close> creates timer \<open>t1\<close> for controller \<open>c1\<close>; socket \<open>b\<close> connects.\<close>

definition one_timer :: "event list" where
  "one_timer =
     [Connect ''a'',
      Message ''a'' 1000 ''t1'' (CreateTimer ''Demo'' 60 Undefined Undefined ''c1'' None),
      Connect ''b'']"

text \<open>Then \<open>b\<close> joins \<open>t1\<close>, and views it again with a capacity of 2.\<close>

definition two_viewers :: "event list" where
  "two_viewers =
     one_timer @
     [Message ''b'' 2000 ''g2'' (JoinTimer ''t1'' ''c1'' Undefined),
      Message ''b'' 3000 ''g3'' (ViewTimer ''t1'' ''c9'' (Num 2))]"

text \<open>
  Instead, after \<open>b\<close> has joined, socket \<open>c\<close> asks to join \<open>t1\<close> with a capacity
  of 1, under a controller id that owns nothing.
\<close>

definition lowered :: "event list" where
  "lowered =
     one_timer @
     [Message ''b'' 2000 ''g2'' (JoinTimer ''t1'' ''c1'' Undefined),
      Connect ''c'',
      Message ''c'' 3000 ''g3'' (JoinTimer ''t1'' ''zz'' (Num 1))]"

text \<open>
  Two tenants: \<open>b\<close> creates timer \<open>t2\<close> for controller \<open>c2\<close>, then joins \<open>t1\<close>,
  the timer of \<open>c1\<close>, giving \<open>c2\<close> as its controller id.
\<close>

definition two_tenants :: "event list" where
  "two_tenants =
     one_timer @
     [Message ''b'' 2000 ''t2'' (CreateTimer ''Other'' 30 Undefined Undefined ''c2'' None),
      Message ''b'' 3000 ''g3'' (JoinTimer ''t1'' ''c2'' Undefined)]"

text \<open>Two tenants, before the viewer \<open>a\<close> of \<open>t1\<close> joins \<open>t2\<close>.\<close>

definition two_timers :: "event list" where
  "two_timers =
     one_timer @
     [Message ''b'' 2000 ''t2'' (CreateTimer ''Other'' 30 Undefined Undefined ''c2'' None)]"

text \<open>A timer created with a capacity of one half.\<close>

definition half_slot :: "event list" where
  "half_slot =
     [Connect ''a'',
      Message ''a'' 1000 ''t1'' (CreateTimer ''Demo'' 60 (Num (1 / 2)) Undefined ''c1'' None)]"




section \<open>Facts about the Timer class\<close>

lemma filter_removeAll:
  "filter P (removeAll d xs) = filter (\<lambda>x. x \<noteq> d \<and> P x) xs"
  by (induction xs) auto

lemma forEachDevice_fst:
  "fst (forEachDevice socks ds t) =
     t\<lparr>connectedDevices := filter (\<lambda>d. d \<in> socks \<or> d \<notin> set ds) (connectedDevices t)\<rparr>"
proof (induction ds arbitrary: t)
  case Nil
  show ?case by simp
next
  case (Cons d ds)
  show ?case
  proof (cases "d \<in> socks")
    case True
    have "filter (\<lambda>x. x \<in> socks \<or> x \<noteq> d \<and> x \<notin> set ds) (connectedDevices t)
            = filter (\<lambda>x. x \<in> socks \<or> x \<notin> set ds) (connectedDevices t)"
      using True by (intro filter_cong) auto
    with True Cons.IH [of t] show ?thesis
      by (simp add: split_beta)
  next
    case False
    have "filter (\<lambda>x. x \<in> socks \<or> x \<notin> set ds) (removeAll d (connectedDevices t))
            = filter (\<lambda>x. x \<noteq> d \<and> (x \<in> socks \<or> x \<notin> set ds)) (connectedDevices t)"
      by (rule filter_removeAll)
    also have "\<dots> = filter (\<lambda>x. x \<in> socks \<or> x \<noteq> d \<and> x \<notin> set ds) (connectedDevices t)"
      using False by (intro filter_cong) auto
    finally have "filter (\<lambda>x. x \<in> socks \<or> x \<notin> set ds) (removeAll d (connectedDevices t))
            = filter (\<lambda>x. x \<in> socks \<or> x \<noteq> d \<and> x \<notin> set ds) (connectedDevices t)" .
    with False Cons.IH show ?thesis
      by (simp add: set_delete_def)
  qed
qed

lemma update_fst:
  "fst (update now socks t) =
     (if isRunning t \<and> startTime t \<noteq> None \<and> startTime t \<noteq> Some 0
      then t\<lparr>remaining := duration t - elapsed now t\<rparr> else t)
     \<lparr>connectedDevices := filter (\<lambda>d. d \<in> socks) (connectedDevices t)\<rparr>"
proof -
  have "filter (\<lambda>d. d \<in> socks \<or> d \<notin> set xs) xs = filter (\<lambda>d. d \<in> socks) xs" for xs :: "socketId list"
    by (intro filter_cong) auto
  then show ?thesis
    by (simp add: update_def Let_def forEachDevice_fst)
qed

lemmas method_defs = start_def pause_def reset_def setDuration_def adjustTime_def
  updateMessage_def clearMessage_def updateStyling_def toggleFlash_def removeDevice_def
  clearTick_def Let_def

lemma method_id:
  "id_t (fst (start now k t)) = id_t t"
  "id_t (fst (pause now k t)) = id_t t"
  "id_t (fst (reset now k t)) = id_t t"
  "id_t (fst (setDuration d now k t)) = id_t t"
  "id_t (fst (adjustTime n now k t)) = id_t t"
  "id_t (fst (updateMessage m now k t)) = id_t t"
  "id_t (fst (clearMessage now k t)) = id_t t"
  "id_t (fst (updateStyling y now k t)) = id_t t"
  "id_t (fst (toggleFlash f now k t)) = id_t t"
  "id_t (fst (removeDevice x now k t)) = id_t t"
  "id_t (fst (update now k t)) = id_t t"
  by (simp_all add: method_defs update_fst)

lemma method_owner:
  "controllerId (fst (start now k t)) = controllerId t"
  "controllerId (fst (pause now k t)) = controllerId t"
  "controllerId (fst (reset now k t)) = controllerId t"
  "controllerId (fst (setDuration d now k t)) = controllerId t"
  "controllerId (fst (adjustTime n now k t)) = controllerId t"
  "controllerId (fst (updateMessage m now k t)) = controllerId t"
  "controllerId (fst (clearMessage now k t)) = controllerId t"
  "controllerId (fst (updateStyling y now k t)) = controllerId t"
  "controllerId (fst (toggleFlash f now k t)) = controllerId t"
  "controllerId (fst (removeDevice x now k t)) = controllerId t"
  "controllerId (fst (update now k t)) = controllerId t"
  by (simp_all add: method_defs update_fst)

lemma addDevice_id: "id_t (fst (snd (addDevice x now k t))) = id_t t"
  by (simp add: addDevice_def update_fst split_beta)

lemma addDevice_owner: "controllerId (fst (snd (addDevice x now k t))) = controllerId t"
  by (simp add: addDevice_def update_fst split_beta)

section \<open>What each handler does to the registries\<close>

lemma addDevice_cases:
  "addDevice x now k t =
     (if of_nat (length (connectedDevices t)) < maxConnectionsAllowed t
      then (True, update now k (t\<lparr>connectedDevices := set_add x (connectedDevices t)\<rparr>))
      else (False, t, []))"
  by (simp add: addDevice_def split_beta)

lemma join_timers:
  "timers (fst (on_join_timer sock now j c m s)) i =
     (if c \<noteq> [] \<and> i = j
      then map_option (\<lambda>t. fst (snd (addDevice sock now (sockets s)
                 (t\<lparr>maxConnectionsAllowed := nullish m (maxConnectionsAllowed t)\<rparr>)))) (timers s j)
      else timers s i)"
  by (simp add: on_join_timer_def Let_def split: option.splits prod.splits bool.splits)

lemma view_timers:
  "timers (fst (on_view_timer sock now j c m s)) i =
     (if c \<noteq> [] \<and> i = j
      then map_option (\<lambda>t. fst (snd (addDevice sock now (sockets s)
                 (t\<lparr>maxConnectionsAllowed := nullish m (maxConnectionsAllowed t)\<rparr>)))) (timers s j)
      else timers s i)"
  by (simp add: on_view_timer_def Let_def split: option.splits prod.splits bool.splits)

lemma join_frame:
  "controllerTimers (fst (on_join_timer sock now j c m s)) = controllerTimers s"
  "sockets (fst (on_join_timer sock now j c m s)) = sockets s"
  "controllerToSocket (fst (on_join_timer sock now j c m s)) = controllerToSocket s
   \<or> controllerToSocket (fst (on_join_timer sock now j c m s)) = add_to (controllerToSocket s) c sock"
  by (simp_all add: on_join_timer_def Let_def split: option.splits prod.splits bool.splits)

lemma view_frame:
  "controllerTimers (fst (on_view_timer sock now j c m s)) = controllerTimers s"
  "sockets (fst (on_view_timer sock now j c m s)) = sockets s"
  "controllerToSocket (fst (on_view_timer sock now j c m s)) = controllerToSocket s
   \<or> controllerToSocket (fst (on_view_timer sock now j c m s)) = add_to (controllerToSocket s) c sock"
  by (simp_all add: on_view_timer_def Let_def split: option.splits prod.splits bool.splits)

lemma control_timers:
  "timers (fst (control f sock j c s)) i =
     (if i = j \<and> c \<noteq> [] \<and> map_option controllerId (timers s j) = Some (Some c)
      then map_option (\<lambda>t. fst (f t)) (timers s j)
      else timers s i)"
  by (simp add: control_def Let_def split: option.splits prod.splits)

lemma control_frame:
  "controllerTimers (fst (control f sock j c s)) = controllerTimers s"
  "sockets (fst (control f sock j c s)) = sockets s"
  "controllerToSocket (fst (control f sock j c s)) = controllerToSocket s"
  "deviceToTimer (fst (control f sock j c s)) = deviceToTimer s"
  by (simp_all add: control_def Let_def split: option.splits prod.splits)

lemma delete_timers:
  "timers (fst (on_delete_timer sock j c s)) i =
     (if i = j \<and> c \<noteq> [] \<and> map_option controllerId (timers s j) = Some (Some c)
      then None else timers s i)"
  by (simp add: on_delete_timer_def Let_def split: option.splits)

lemma delete_controllerTimers:
  "get_or_empty (controllerTimers (fst (on_delete_timer sock j c s))) c' =
     (if c' = c \<and> c \<noteq> [] \<and> map_option controllerId (timers s j) = Some (Some c)
      then set_delete j (get_or_empty (controllerTimers s) c)
      else get_or_empty (controllerTimers s) c')"
  by (simp add: on_delete_timer_def Let_def get_or_empty_def set_delete_def split: option.splits)


lemma disconnect_timers:
  "timers (fst (on_disconnect sock now s)) i =
     (case deviceToTimer s sock of
        None \<Rightarrow> timers s i
      | Some j \<Rightarrow> if j \<noteq> [] \<and> i = j
                  then map_option (\<lambda>t. fst (removeDevice sock now (sockets s) t)) (timers s j)
                  else timers s i)"
  by (simp add: on_disconnect_def Let_def split: option.splits prod.splits)

lemma disconnect_frame:
  "controllerTimers (fst (on_disconnect sock now s)) = controllerTimers s"
  "sockets (fst (on_disconnect sock now s)) = sockets s"
  by (simp_all add: on_disconnect_def Let_def split: option.splits prod.splits)


lemma tick_timers:
  "timers (fst (step (Tick j now) s)) i =
     (if i = j then map_option (\<lambda>t. fst (update now (sockets s) t)) (timers s j) else timers s i)"
  by (simp add: Let_def split: option.splits prod.splits)

lemma tick_frame:
  "controllerTimers (fst (step (Tick j now) s)) = controllerTimers s"
  "sockets (fst (step (Tick j now) s)) = sockets s"
  "controllerToSocket (fst (step (Tick j now) s)) = controllerToSocket s"
  by (simp_all add: Let_def split: option.splits prod.splits)

lemma fresh_timer_fields:
  "id_t (fresh_timer gid nm d m mt c sty) = gid"
  "controllerId (fresh_timer gid nm d m mt c sty) = Some c"
  "connectedDevices (fresh_timer gid nm d m mt c sty) = []"
  "maxConnectionsAllowed (fresh_timer gid nm d m mt c sty) = nullish m 4"
  "isRunning (fresh_timer gid nm d m mt c sty) = False"
  by (simp_all add: fresh_timer_def new_Timer_def Let_def split: option.splits)

lemma create_timers:
  "timers (fst (on_create_timer sock now gid nm d m mt c sty s)) i =
     (if i = gid \<and> c \<noteq> [] \<and> \<not> size_ge (length (get_or_empty (controllerTimers s) c)) (defaulted mt 3)
      then Some (fst (snd (addDevice sock now (sockets s)
                     (fresh_timer gid nm d (defaulted m 4) (defaulted mt 3) c sty))))
      else timers s i)"
  by (simp add: on_create_timer_def Let_def split: prod.splits)

lemma create_controllerTimers:
  "get_or_empty (controllerTimers (fst (on_create_timer sock now gid nm d m mt c sty s))) c' =
     (if c' = c \<and> c \<noteq> [] \<and> \<not> size_ge (length (get_or_empty (controllerTimers s) c)) (defaulted mt 3)
      then set_add gid (get_or_empty (controllerTimers s) c)
      else get_or_empty (controllerTimers s) c')"
  by (simp add: on_create_timer_def Let_def add_to_def get_or_empty_def split: prod.splits)


section \<open>Ownership of listed timers\<close>

lemma ownedConsistent_keep:
  assumes "ownedConsistent s" and "controllerTimers s' = controllerTimers s"
    and "\<And>i t. timers s i = Some t \<Longrightarrow>
           \<exists>t'. timers s' i = Some t' \<and> id_t t' = id_t t \<and> controllerId t' = controllerId t"
  shows "ownedConsistent s'"
  unfolding ownedConsistent_def
proof (intro allI impI)
  fix c i
  assume "i \<in> set (get_or_empty (controllerTimers s') c)"
  with assms(1,2) obtain t where t: "timers s i = Some t" "controllerId t = Some c" "id_t t = i"
    by (auto simp: ownedConsistent_def)
  from assms(3) [OF t(1)] t
  show "\<exists>t. timers s' i = Some t \<and> controllerId t = Some c \<and> id_t t = i"
    by auto
qed

lemma control_ownedConsistent:
  assumes "ownedConsistent s"
    and "\<And>t. id_t (fst (f t)) = id_t t" and "\<And>t. controllerId (fst (f t)) = controllerId t"
  shows "ownedConsistent (fst (control f sock j c s))"
  using assms(1)
  by (rule ownedConsistent_keep) (auto simp: control_frame control_timers assms(2,3))

lemma join_ownedConsistent:
  "ownedConsistent s \<Longrightarrow> ownedConsistent (fst (on_join_timer sock now j c m s))"
  by (erule ownedConsistent_keep) (auto simp: join_frame join_timers addDevice_id addDevice_owner)

lemma view_ownedConsistent:
  "ownedConsistent s \<Longrightarrow> ownedConsistent (fst (on_view_timer sock now j c m s))"
  by (erule ownedConsistent_keep) (auto simp: view_frame view_timers addDevice_id addDevice_owner)

lemma disconnect_ownedConsistent:
  "ownedConsistent s \<Longrightarrow> ownedConsistent (fst (on_disconnect sock now s))"
  by (erule ownedConsistent_keep)
     (auto simp: disconnect_frame disconnect_timers method_id method_owner split: option.splits)

lemma tick_ownedConsistent:
  "ownedConsistent s \<Longrightarrow> ownedConsistent (fst (step (Tick j now) s))"
  by (erule ownedConsistent_keep)
     (auto simp: tick_frame tick_timers method_id method_owner simp del: step.simps)

lemma delete_ownedConsistent:
  assumes "ownedConsistent s"
  shows "ownedConsistent (fst (on_delete_timer sock j c s))"
  unfolding ownedConsistent_def
proof (intro allI impI)
  fix c' i
  assume a: "i \<in> set (get_or_empty (controllerTimers (fst (on_delete_timer sock j c s))) c')"
  then have b: "i \<in> set (get_or_empty (controllerTimers s) c')"
    by (auto simp: delete_controllerTimers set_delete_def split: if_splits)
  with assms obtain t where t: "timers s i = Some t" "controllerId t = Some c'" "id_t t = i"
    by (auto simp: ownedConsistent_def)
  have "\<not> (i = j \<and> c \<noteq> [] \<and> map_option controllerId (timers s j) = Some (Some c))"
    using a t by (auto simp: delete_controllerTimers set_delete_def split: if_splits)
  then have "timers (fst (on_delete_timer sock j c s)) i = timers s i"
    by (simp only: delete_timers if_False)
  with t show "\<exists>t. timers (fst (on_delete_timer sock j c s)) i = Some t
                  \<and> controllerId t = Some c' \<and> id_t t = i"
    by simp
qed

lemma create_ownedConsistent:
  assumes "ownedConsistent s" and "timers s gid = None"
  shows "ownedConsistent (fst (on_create_timer sock now gid nm d m mt c sty s))"
  unfolding ownedConsistent_def
proof (intro allI impI)
  fix c' i
  let ?s' = "fst (on_create_timer sock now gid nm d m mt c sty s)"
  assume a: "i \<in> set (get_or_empty (controllerTimers ?s') c')"
  show "\<exists>t. timers ?s' i = Some t \<and> controllerId t = Some c' \<and> id_t t = i"
  proof (cases "i \<in> set (get_or_empty (controllerTimers s) c')")
    case True
    with assms(1) obtain t where t: "timers s i = Some t" "controllerId t = Some c'" "id_t t = i"
      by (auto simp: ownedConsistent_def)
    with assms(2) have "i \<noteq> gid" by auto
    with t show ?thesis by (simp add: create_timers)
  next
    case False
    with a have "i = gid \<and> c' = c \<and> c \<noteq> []
       \<and> \<not> size_ge (length (get_or_empty (controllerTimers s) c)) (defaulted mt 3)"
      by (auto simp: create_controllerTimers set_add_def split: if_splits)
    then show ?thesis
      by (simp add: create_timers addDevice_id addDevice_owner fresh_timer_fields)
  qed
qed

lemma handle_ownedConsistent:
  assumes "ownedConsistent s" and "timers s gid = None"
  shows "ownedConsistent (fst (handle cmd sock now gid s))"
proof (cases cmd)
  case (CreateTimer nm d m mt c sty)
  with assms show ?thesis by (simp add: create_ownedConsistent)
qed (simp_all add: assms(1) join_ownedConsistent view_ownedConsistent delete_ownedConsistent
       on_get_timers_def control_ownedConsistent method_id method_owner)

lemma step_ownedConsistent:
  assumes "ownedConsistent s" and "allowed e s"
  shows "ownedConsistent (fst (step e s))"
proof (cases e)
  case (Connect sock)
  with assms(1) show ?thesis by (simp add: ownedConsistent_def)
next
  case (Message sock now gid cmd)
  with assms show ?thesis by (simp add: handle_ownedConsistent)
next
  case (Disconnect sock now)
  have "ownedConsistent (s\<lparr>sockets := sockets s - {sock}\<rparr>)"
    using assms(1) by (simp add: ownedConsistent_def)
  then show ?thesis
    using Disconnect by (simp add: disconnect_ownedConsistent)
next
  case (Tick j now)
  with assms(1) show ?thesis by (simp only: tick_ownedConsistent)
qed

lemma reachable_ownedConsistent: "reachable s \<Longrightarrow> ownedConsistent s"
proof (induction rule: reachable.induct)
  case reachable_init
  show ?case by (simp add: ownedConsistent_def init_def get_or_empty_def)
next
  case (reachable_step s e)
  then show ?case by (simp add: step_ownedConsistent)
qed

lemma filter_Boolean_set:
  "x \<in> set (filter_Boolean ys) \<longleftrightarrow> Some x \<in> set ys"
  by (induction ys rule: filter_Boolean.induct) auto

lemma allowedRun_reachable:
  "reachable s \<Longrightarrow> allowedRun es s \<Longrightarrow> reachable (run es s)"
  by (induction es arbitrary: s) (auto intro: reachable_step)

section \<open>Viewer counts and capacities\<close>

lemma method_capacity:
  "maxConnectionsAllowed (fst (start now k t)) = maxConnectionsAllowed t"
  "maxConnectionsAllowed (fst (pause now k t)) = maxConnectionsAllowed t"
  "maxConnectionsAllowed (fst (reset now k t)) = maxConnectionsAllowed t"
  "maxConnectionsAllowed (fst (setDuration d now k t)) = maxConnectionsAllowed t"
  "maxConnectionsAllowed (fst (adjustTime n now k t)) = maxConnectionsAllowed t"
  "maxConnectionsAllowed (fst (updateMessage m now k t)) = maxConnectionsAllowed t"
  "maxConnectionsAllowed (fst (clearMessage now k t)) = maxConnectionsAllowed t"
  "maxConnectionsAllowed (fst (updateStyling y now k t)) = maxConnectionsAllowed t"
  "maxConnectionsAllowed (fst (toggleFlash f now k t)) = maxConnectionsAllowed t"
  "maxConnectionsAllowed (fst (removeDevice x now k t)) = maxConnectionsAllowed t"
  "maxConnectionsAllowed (fst (update now k t)) = maxConnectionsAllowed t"
  by (simp_all add: method_defs update_fst)

lemma length_filter_removeAll: "length (filter P (removeAll x xs)) \<le> length xs"
  by (rule order_trans [OF length_filter_le]) (simp add: removeAll_filter_not_eq)

lemma method_count:
  "length (connectedDevices (fst (start now k t))) \<le> length (connectedDevices t)"
  "length (connectedDevices (fst (pause now k t))) \<le> length (connectedDevices t)"
  "length (connectedDevices (fst (reset now k t))) \<le> length (connectedDevices t)"
  "length (connectedDevices (fst (setDuration d now k t))) \<le> length (connectedDevices t)"
  "length (connectedDevices (fst (adjustTime n now k t))) \<le> length (connectedDevices t)"
  "length (connectedDevices (fst (updateMessage m now k t))) \<le> length (connectedDevices t)"
  "length (connectedDevices (fst (clearMessage now k t))) \<le> length (connectedDevices t)"
  "length (connectedDevices (fst (updateStyling y now k t))) \<le> length (connectedDevices t)"
  "length (connectedDevices (fst (toggleFlash f now k t))) \<le> length (connectedDevices t)"
  "length (connectedDevices (fst (removeDevice x now k t))) \<le> length (connectedDevices t)"
  "length (connectedDevices (fst (update now k t))) \<le> length (connectedDevices t)"
  by (simp_all add: method_defs update_fst set_delete_def length_filter_removeAll)

lemma whole_next:
  assumes "whole m" and "of_nat n < m"
  shows "of_nat (Suc n) \<le> m"
proof -
  from assms(1) have m: "m = of_int \<lfloor>m\<rfloor>"
    unfolding whole_def by (rule sym)
  from assms(2) have "(of_int (int n) :: rat) < of_int \<lfloor>m\<rfloor>"
    using m by simp
  then have "int n < \<lfloor>m\<rfloor>"
    by (simp only: of_int_less_iff)
  then have "int (Suc n) \<le> \<lfloor>m\<rfloor>"
    by simp
  then have "(of_int (int (Suc n)) :: rat) \<le> of_int \<lfloor>m\<rfloor>"
    by (simp only: of_int_le_iff)
  with m show ?thesis by simp
qed

lemma whole_numbers: "whole 0" "whole 1" "whole 4" "whole (of_nat n)" "whole (of_int z)"
  by (simp_all add: whole_def)

lemma addDevice_fits:
  assumes "fits t"
  shows "fits (fst (snd (addDevice x now k t)))"
proof (cases "of_nat (length (connectedDevices t)) < maxConnectionsAllowed t")
  case True
  have "length (filter (\<lambda>d. d \<in> k) (set_add x (connectedDevices t)))
          \<le> length (set_add x (connectedDevices t))"
    by (rule length_filter_le)
  also have "\<dots> \<le> Suc (length (connectedDevices t))"
    by (simp add: set_add_def)
  finally have "(of_nat (length (filter (\<lambda>d. d \<in> k) (set_add x (connectedDevices t)))) :: rat)
                  \<le> of_nat (Suc (length (connectedDevices t)))"
    by (simp only: of_nat_le_iff)
  also have "\<dots> \<le> maxConnectionsAllowed t"
    using assms True by (intro whole_next) (simp_all add: fits_def)
  finally show ?thesis
    using True assms by (simp add: addDevice_cases update_fst fits_def)
next
  case False
  with assms show ?thesis by (simp add: addDevice_cases)
qed

lemma fitting_split:
  "(\<forall>i t. timers s i = Some t \<longrightarrow> fits t) = (withinCapacity s \<and> wholeCapacities s)"
  by (auto simp: fits_def withinCapacity_def wholeCapacities_def)

lemma fitting_keep:
  assumes "\<forall>i t. timers s i = Some t \<longrightarrow> fits t"
    and "\<And>i t'. timers s' i = Some t' \<Longrightarrow>
           fits t'
           \<or> (\<exists>t. timers s i = Some t \<and> maxConnectionsAllowed t' = maxConnectionsAllowed t
                  \<and> length (connectedDevices t') \<le> length (connectedDevices t))"
  shows "\<forall>i t. timers s' i = Some t \<longrightarrow> fits t"
proof (intro allI impI)
  fix i t'
  assume "timers s' i = Some t'"
  from assms(2) [OF this] show "fits t'"
  proof
    assume "fits t'"
    then show ?thesis .
  next
    assume "\<exists>t. timers s i = Some t \<and> maxConnectionsAllowed t' = maxConnectionsAllowed t
                  \<and> length (connectedDevices t') \<le> length (connectedDevices t)"
    then obtain t where t: "timers s i = Some t"
      and m: "maxConnectionsAllowed t' = maxConnectionsAllowed t"
      and l: "length (connectedDevices t') \<le> length (connectedDevices t)"
      by blast
    from assms(1) t have f: "fits t" by blast
    from l have "(of_nat (length (connectedDevices t')) :: rat) \<le> of_nat (length (connectedDevices t))"
      by (simp only: of_nat_le_iff)
    with f m show ?thesis by (simp add: fits_def)
  qed
qed

lemma control_fitting:
  assumes "\<forall>i t. timers s i = Some t \<longrightarrow> fits t"
    and "\<And>t. maxConnectionsAllowed (fst (f t)) = maxConnectionsAllowed t"
    and "\<And>t. length (connectedDevices (fst (f t))) \<le> length (connectedDevices t)"
  shows "\<forall>i t. timers (fst (control f sock j c s)) i = Some t \<longrightarrow> fits t"
  using assms(1)
  by (rule fitting_keep) (auto simp: control_timers assms(2,3) split: if_splits)

lemma disconnect_fitting:
  "\<forall>i t. timers s i = Some t \<longrightarrow> fits t \<Longrightarrow>
     \<forall>i t. timers (fst (on_disconnect sock now s)) i = Some t \<longrightarrow> fits t"
  by (erule fitting_keep)
     (auto simp: disconnect_timers method_capacity method_count split: option.splits if_splits)

lemma tick_fitting:
  "\<forall>i t. timers s i = Some t \<longrightarrow> fits t \<Longrightarrow>
     \<forall>i t. timers (fst (step (Tick j now) s)) i = Some t \<longrightarrow> fits t"
  by (erule fitting_keep)
     (auto simp: tick_timers method_capacity method_count simp del: step.simps split: if_splits)

lemma delete_fitting:
  "\<forall>i t. timers s i = Some t \<longrightarrow> fits t \<Longrightarrow>
     \<forall>i t. timers (fst (on_delete_timer sock j c s)) i = Some t \<longrightarrow> fits t"
  by (erule fitting_keep) (auto simp: delete_timers split: if_splits)

lemma raised_capacity:
  assumes "\<forall>i t. timers s i = Some t \<longrightarrow> fits t" and "coversCount j m s"
    and "timers s j = Some t"
  shows "fits (t\<lparr>maxConnectionsAllowed := nullish m (maxConnectionsAllowed t)\<rparr>)"
proof -
  from assms(1,3) have "fits t" by blast
  with assms(2,3) show ?thesis
    by (cases m) (simp_all add: fits_def coversCount_def nullish_def)
qed

lemma join_fitting:
  assumes "\<forall>i t. timers s i = Some t \<longrightarrow> fits t" and "coversCount j m s"
  shows "\<forall>i t. timers (fst (on_join_timer sock now j c m s)) i = Some t \<longrightarrow> fits t"
  using assms(1)
proof (rule fitting_keep)
  fix i t'
  assume a: "timers (fst (on_join_timer sock now j c m s)) i = Some t'"
  show "fits t'
        \<or> (\<exists>t. timers s i = Some t \<and> maxConnectionsAllowed t' = maxConnectionsAllowed t
               \<and> length (connectedDevices t') \<le> length (connectedDevices t))"
  proof (cases "c \<noteq> [] \<and> i = j")
    case True
    with a obtain t where t: "timers s j = Some t"
      and t': "t' = fst (snd (addDevice sock now (sockets s)
                  (t\<lparr>maxConnectionsAllowed := nullish m (maxConnectionsAllowed t)\<rparr>)))"
      by (auto simp: join_timers)
    from raised_capacity [OF assms t] show ?thesis
      unfolding t' by (intro disjI1 addDevice_fits)
  next
    case False
    with a show ?thesis by (auto simp: join_timers)
  qed
qed

lemma view_fitting:
  assumes "\<forall>i t. timers s i = Some t \<longrightarrow> fits t" and "coversCount j m s"
  shows "\<forall>i t. timers (fst (on_view_timer sock now j c m s)) i = Some t \<longrightarrow> fits t"
  using assms(1)
proof (rule fitting_keep)
  fix i t'
  assume a: "timers (fst (on_view_timer sock now j c m s)) i = Some t'"
  show "fits t'
        \<or> (\<exists>t. timers s i = Some t \<and> maxConnectionsAllowed t' = maxConnectionsAllowed t
               \<and> length (connectedDevices t') \<le> length (connectedDevices t))"
  proof (cases "c \<noteq> [] \<and> i = j")
    case True
    with a obtain t where t: "timers s j = Some t"
      and t': "t' = fst (snd (addDevice sock now (sockets s)
                  (t\<lparr>maxConnectionsAllowed := nullish m (maxConnectionsAllowed t)\<rparr>)))"
      by (auto simp: view_timers)
    from raised_capacity [OF assms t] show ?thesis
      unfolding t' by (intro disjI1 addDevice_fits)
  next
    case False
    with a show ?thesis by (auto simp: view_timers)
  qed
qed

lemma create_fitting:
  assumes "\<forall>i t. timers s i = Some t \<longrightarrow> fits t"
    and "case m of Num n \<Rightarrow> whole n \<and> 0 \<le> n | Null \<Rightarrow> True | Undefined \<Rightarrow> True"
  shows "\<forall>i t. timers (fst (on_create_timer sock now gid nm d m mt c sty s)) i = Some t \<longrightarrow> fits t"
  using assms(1)
proof (rule fitting_keep)
  fix i t'
  assume a: "timers (fst (on_create_timer sock now gid nm d m mt c sty s)) i = Some t'"
  have z: "fits (fresh_timer gid nm d (defaulted m 4) (defaulted mt 3) c sty)"
    using assms(2)
    by (cases m) (simp_all add: fits_def fresh_timer_fields nullish_def defaulted_def whole_numbers)
  from a addDevice_fits [OF z, of sock now "sockets s"]
  show "fits t'
        \<or> (\<exists>t. timers s i = Some t \<and> maxConnectionsAllowed t' = maxConnectionsAllowed t
               \<and> length (connectedDevices t') \<le> length (connectedDevices t))"
    by (auto simp: create_timers split: if_splits)
qed

lemma handle_fitting:
  assumes "\<forall>i t. timers s i = Some t \<longrightarrow> fits t"
    and "respectsCount (Message sock now gid cmd) s"
  shows "\<forall>i t. timers (fst (handle cmd sock now gid s)) i = Some t \<longrightarrow> fits t"
proof (cases cmd)
  case (JoinTimer j c m)
  from assms(2) have "coversCount j m s" by (simp add: JoinTimer)
  with assms(1) show ?thesis
    unfolding JoinTimer handle.simps by (rule join_fitting)
next
  case (ViewTimer j c m)
  from assms(2) have "coversCount j m s" by (simp add: ViewTimer)
  with assms(1) show ?thesis
    unfolding ViewTimer handle.simps by (rule view_fitting)
next
  case (CreateTimer nm d m mt c sty)
  from assms(2)
  have "case m of Num n \<Rightarrow> whole n \<and> 0 \<le> n | Null \<Rightarrow> True | Undefined \<Rightarrow> True"
    by (simp add: CreateTimer)
  with assms(1) show ?thesis
    unfolding CreateTimer handle.simps by (rule create_fitting)
next
  case (GetTimers c)
  with assms(1) show ?thesis by (simp add: on_get_timers_def)
next
  case (DeleteTimer j c)
  from assms(1) show ?thesis
    unfolding DeleteTimer handle.simps by (rule delete_fitting)
next
  case (SetTimer j d c)
  from assms(1) show ?thesis
    unfolding SetTimer handle.simps
    by (rule control_fitting) (simp_all add: method_capacity method_count)
next
  case (StartTimer j c)
  from assms(1) show ?thesis
    unfolding StartTimer handle.simps
    by (rule control_fitting) (simp_all add: method_capacity method_count)
next
  case (PauseTimer j c)
  from assms(1) show ?thesis
    unfolding PauseTimer handle.simps
    by (rule control_fitting) (simp_all add: method_capacity method_count)
next
  case (ResetTimer j c)
  from assms(1) show ?thesis
    unfolding ResetTimer handle.simps
    by (rule control_fitting) (simp_all add: method_capacity method_count)
next
  case (AdjustTimer j n c)
  from assms(1) show ?thesis
    unfolding AdjustTimer handle.simps
    by (rule control_fitting) (simp_all add: method_capacity method_count)
next
  case (UpdateMessage j m c)
  from assms(1) show ?thesis
    unfolding UpdateMessage handle.simps
    by (rule control_fitting) (simp_all add: method_capacity method_count)
next
  case (ClearMessage j c)
  from assms(1) show ?thesis
    unfolding ClearMessage handle.simps
    by (rule control_fitting) (simp_all add: method_capacity method_count)
next
  case (UpdateStyling j y c)
  from assms(1) show ?thesis
    unfolding UpdateStyling handle.simps
    by (rule control_fitting) (simp_all add: method_capacity method_count)
next
  case (ToggleFlash j f c)
  from assms(1) show ?thesis
    unfolding ToggleFlash handle.simps
    by (rule control_fitting) (simp_all add: method_capacity method_count)
qed

lemma step_fitting:
  assumes "\<forall>i t. timers s i = Some t \<longrightarrow> fits t" and "respectsCount e s"
  shows "\<forall>i t. timers (fst (step e s)) i = Some t \<longrightarrow> fits t"
proof (cases e)
  case (Connect sock)
  with assms(1) show ?thesis by simp
next
  case (Message sock now gid cmd)
  from assms(2) have "respectsCount (Message sock now gid cmd) s"
    by (simp only: Message)
  with assms(1) show ?thesis
    unfolding Message step.simps by (rule handle_fitting)
next
  case (Disconnect sock now)
  have "\<forall>i t. timers (s\<lparr>sockets := sockets s - {sock}\<rparr>) i = Some t \<longrightarrow> fits t"
    using assms(1) by simp
  then show ?thesis
    unfolding Disconnect step.simps by (rule disconnect_fitting)
next
  case (Tick j now)
  from assms(1) show ?thesis
    unfolding Tick by (rule tick_fitting)
qed

lemma run_fitting:
  "\<forall>i t. timers s i = Some t \<longrightarrow> fits t \<Longrightarrow> respectsCountRun es s \<Longrightarrow>
     \<forall>i t. timers (run es s) i = Some t \<longrightarrow> fits t"
proof (induction es arbitrary: s)
  case Nil
  then show ?case by simp
next
  case (Cons e es)
  from Cons.prems have "respectsCount e s" and r: "respectsCountRun es (fst (step e s))"
    by simp_all
  from step_fitting [OF Cons.prems(1) this(1)] r
  have "\<forall>i t. timers (run es (fst (step e s))) i = Some t \<longrightarrow> fits t"
    by (rule Cons.IH)
  then show ?case by simp
qed

section \<open>Tracked sessions are connected\<close>


lemma set_set_add: "set (set_add x xs) = insert x (set xs)"
  unfolding set_add_def by auto







section \<open>What keeps a timer running\<close>












section \<open>The claims about one timer\<close>

subsection \<open>What reset restores\<close>

lemma invoke_originalDuration:
  "(case c of CallAdjustTime n \<Rightarrow> isRunning t | _ \<Rightarrow> True) \<Longrightarrow>
     originalDuration (invoke c now k t) = originalDuration t"
  by (cases c) (simp_all add: method_defs update_fst addDevice_def split_beta)

lemma invokeAll_originalDuration:
  "adjustsWhileRunning cs t \<Longrightarrow> originalDuration (invokeAll cs t) = originalDuration t"
proof (induction cs arbitrary: t)
  case Nil
  show ?case by simp
next
  case (Cons x cs)
  obtain c now k where x: "x = (c, now, k)" by (cases x)
  from Cons.prems have a: "(case c of CallAdjustTime n \<Rightarrow> isRunning t | _ \<Rightarrow> True)"
    and b: "adjustsWhileRunning cs (invoke c now k t)"
    by (simp_all add: x)
  show ?case
    using Cons.IH [OF b] invoke_originalDuration [OF a] by (simp add: x)
qed

lemma reset_result:
  "duration (fst (reset now k t)) = originalDuration t"
  "remaining (fst (reset now k t)) = originalDuration t"
  by (simp_all add: method_defs update_fst)

lemma originalDuration_set:
  "originalDuration (fst (setDuration d now k t)) = d"
  "originalDuration (new_Timer i nm d m mt) = d"
  "\<not> isRunning t \<Longrightarrow> originalDuration (fst (adjustTime n now k t)) = max 0 (duration t + n)"
  by (simp_all add: method_defs update_fst new_Timer_def)

text \<open>
  Claim C3, as amended. \<^verbatim>\<open>reset()\<close> sets \<open>duration\<close> and \<open>remaining\<close> to the value
  \<open>d\<close> that the last of these stored in \<open>originalDuration\<close>: the constructor,
  \<^verbatim>\<open>setDuration(d)\<close>, or an \<^verbatim>\<open>adjustTime\<close> called while the timer was not running
  (which is \<^verbatim>\<open>setDuration(max(0, duration + seconds))\<close>). Any sequence of other method
  calls may come in between, \<^verbatim>\<open>adjustTime\<close> included as long as each finds the timer
  running.
\<close>

theorem reset_restores_last_set:
  assumes "t0 = fst (setDuration d now0 k0 t) \<or> t0 = new_Timer i nm d m mt
           \<or> (\<not> isRunning t \<and> t0 = fst (adjustTime n now0 k0 t) \<and> d = max 0 (duration t + n))"
    and "adjustsWhileRunning cs t0"
  shows "duration (fst (reset now k (invokeAll cs t0))) = d
       \<and> remaining (fst (reset now k (invokeAll cs t0))) = d"
proof -
  from assms(1) have "originalDuration t0 = d"
    by (auto simp: originalDuration_set)
  with invokeAll_originalDuration [OF assms(2)] show ?thesis
    by (simp add: reset_result)
qed

text \<open>
  A timer created with 60 seconds, started, given 10 more seconds while running, then
  paused: reset gives 60.
\<close>

theorem reset_restores_last_set_witness:
  "adjustsWhileRunning
     [(CallStart, 1000, {''a''}), (CallAdjustTime 10, 4000, {''a''}), (CallPause, 6000, {''a''})]
     (new_Timer ''t1'' ''Demo'' 60 Undefined Undefined)
   \<and> duration (fst (reset 7000 {''a''} (invokeAll
       [(CallStart, 1000, {''a''}), (CallAdjustTime 10, 4000, {''a''}), (CallPause, 6000, {''a''})]
       (new_Timer ''t1'' ''Demo'' 60 Undefined Undefined)))) = 60
   \<and> remaining (fst (reset 7000 {''a''} (invokeAll
       [(CallStart, 1000, {''a''}), (CallAdjustTime 10, 4000, {''a''}), (CallPause, 6000, {''a''})]
       (new_Timer ''t1'' ''Demo'' 60 Undefined Undefined)))) = 60"
proof -
  have r: "adjustsWhileRunning
     [(CallStart, 1000, {''a''}), (CallAdjustTime 10, 4000, {''a''}), (CallPause, 6000, {''a''})]
     (new_Timer ''t1'' ''Demo'' 60 Undefined Undefined)"
    by (simp add: method_defs update_fst new_Timer_def nullish_def)
  show ?thesis
    using r reset_restores_last_set [where ?t0.0 = "new_Timer ''t1'' ''Demo'' 60 Undefined Undefined"
        and d = 60 and i = "''t1''" and nm = "''Demo''" and m = Undefined and mt = Undefined
        and now = 7000 and k = "{''a''}", OF _ r]
    by simp
qed

text \<open>
  A timer created with 60 seconds and given 10 more seconds while stopped: reset gives
  70, not the 60 of its creation.
\<close>

theorem reset_after_stopped_adjust_counterexample:
  "duration (fst (reset 2000 {} (invokeAll [(CallAdjustTime 10, 1000, {})]
      (new_Timer ''t1'' ''Demo'' 60 Undefined Undefined)))) = 70
   \<and> duration (fst (reset 2000 {} (invokeAll [(CallAdjustTime 10, 1000, {})]
      (new_Timer ''t1'' ''Demo'' 60 Undefined Undefined)))) \<noteq> 60"
  by (simp add: method_defs update_def new_Timer_def nullish_def)

subsection \<open>Clamping in adjustTime\<close>

text \<open>
  Claim C8. On a timer that is not running and has \<open>duration = 5\<close>,
  \<^verbatim>\<open>adjustTime(-10)\<close> gives \<open>duration = 0\<close> and a following \<^verbatim>\<open>adjustTime(+10)\<close>
  gives \<open>duration = 10\<close>, which is not the 5 before the clamp.
\<close>

theorem adjustTime_clamp_not_reversible:
  assumes "\<not> isRunning t" and "duration t = 5"
  shows "duration (fst (adjustTime (- 10) now k t)) = 0
       \<and> duration (fst (adjustTime 10 now' k' (fst (adjustTime (- 10) now k t)))) = 10
       \<and> duration (fst (adjustTime 10 now' k' (fst (adjustTime (- 10) now k t)))) \<noteq> duration t"
  using assms by (simp add: method_defs update_fst)

theorem adjustTime_clamp_not_reversible_witness:
  "\<not> isRunning (new_Timer ''t1'' ''Demo'' 5 Undefined Undefined)
   \<and> duration (new_Timer ''t1'' ''Demo'' 5 Undefined Undefined) = 5
   \<and> duration (fst (adjustTime (- 10) 1000 {} (new_Timer ''t1'' ''Demo'' 5 Undefined Undefined))) = 0
   \<and> duration (fst (adjustTime 10 2000 {}
        (fst (adjustTime (- 10) 1000 {} (new_Timer ''t1'' ''Demo'' 5 Undefined Undefined))))) = 10"
  using adjustTime_clamp_not_reversible [of "new_Timer ''t1'' ''Demo'' 5 Undefined Undefined" 1000 "{}" 2000 "{}"]
  by (simp add: new_Timer_def)

section \<open>The claims about the server\<close>

lemmas eval_defs = init_def on_join_timer_def on_view_timer_def on_create_timer_def
  on_get_timers_def on_delete_timer_def on_disconnect_def control_def addDevice_def update_def
  removeDevice_def start_def updateMessage_def fresh_timer_def
  new_Timer_def nullish_def defaulted_def size_ge_def get_or_empty_def add_to_def set_add_def
  set_delete_def emitTimerListForController_def getTimersForController_def summarise_def
  getState_def or_str_def notifyController_def elapsed_def coversCount_def Let_def


lemma join_success:
  assumes "(sock, TimerJoined x) \<in> set (snd (on_join_timer sock now b c m s))"
  shows "\<exists>t. timers s b = Some t \<and> c \<noteq> []
           \<and> of_nat (length (connectedDevices t)) < nullish m (maxConnectionsAllowed t)"
proof (cases "timers s b")
  case None
  with assms show ?thesis
    by (simp add: on_join_timer_def split: if_splits)
next
  case (Some t)
  with assms show ?thesis
    by (auto simp: on_join_timer_def addDevice_cases Let_def notifyController_def
          split: if_splits)
qed

subsection \<open>Capacity\<close>

text \<open>
  Claim C1, as amended. The initial state has every timer within its capacity, with
  whole capacities; and from any state that has, so has the state after any run of
  events, provided that every \<^verbatim>\<open>maxConnectionsAllowed\<close> the run supplies is a whole
  number, that no \<^verbatim>\<open>join-timer\<close> or \<^verbatim>\<open>view-timer\<close> supplies one below the number of
  devices its timer has at that moment, and that no \<^verbatim>\<open>create-timer\<close> supplies a
  negative one.
\<close>

theorem capacity_kept_unless_lowered:
  assumes "withinCapacity s" and "wholeCapacities s" and "respectsCountRun es s"
  shows "withinCapacity init \<and> wholeCapacities init
       \<and> withinCapacity (run es s) \<and> wholeCapacities (run es s)"
proof -
  have "withinCapacity init \<and> wholeCapacities init"
    by (simp add: withinCapacity_def wholeCapacities_def init_def)
  moreover from assms(1,2) have "\<forall>i t. timers s i = Some t \<longrightarrow> fits t"
    by (simp only: fitting_split)
  then have "\<forall>i t. timers (run es s) i = Some t \<longrightarrow> fits t"
    using assms(3) by (rule run_fitting)
  then have "withinCapacity (run es s) \<and> wholeCapacities (run es s)"
    by (simp only: fitting_split)
  ultimately show ?thesis by simp
qed

text \<open>
  Two viewers on a timer of capacity 4, the second of which then views it again with a
  capacity of 2: the timer ends with two devices and capacity 2.
\<close>

theorem capacity_kept_unless_lowered_witness:
  "withinCapacity init \<and> wholeCapacities init \<and> respectsCountRun two_viewers init
   \<and> withinCapacity (run two_viewers init) \<and> wholeCapacities (run two_viewers init)
   \<and> map_option (\<lambda>t. (connectedDevices t, maxConnectionsAllowed t))
        (timers (run two_viewers init) ''t1'') = Some ([''a'', ''b''], 2)"
proof -
  have i: "withinCapacity init"
    by (simp add: withinCapacity_def init_def)
  have w: "wholeCapacities init"
    by (simp add: wholeCapacities_def init_def)
  have r: "respectsCountRun two_viewers init"
    by (simp add: two_viewers_def one_timer_def eval_defs whole_def)
  have v: "map_option (\<lambda>t. (connectedDevices t, maxConnectionsAllowed t))
        (timers (run two_viewers init) ''t1'') = Some ([''a'', ''b''], 2)"
    by (simp add: two_viewers_def one_timer_def eval_defs)
  show ?thesis
    using i w r v capacity_kept_unless_lowered [OF i w r] by simp
qed

text \<open>
  A capacity that is not whole lets \<^verbatim>\<open>addDevice\<close> go past it: the timer created with
  one half holds its creator.
\<close>

lemma fractional_capacity_exceeded:
  "map_option (\<lambda>t. (connectedDevices t, maxConnectionsAllowed t))
     (timers (run half_slot init) ''t1'') = Some ([''a''], 1 / 2)"
  by (simp add: half_slot_def eval_defs)

text \<open>
  With two devices on the timer, a \<^verbatim>\<open>join-timer\<close> that supplies a capacity of 1 is
  refused and leaves the timer with two devices and capacity 1.
\<close>

theorem capacity_lowered_counterexample:
  "allowedRun lowered init
   \<and> map_option (\<lambda>t. (connectedDevices t, maxConnectionsAllowed t))
        (timers (run lowered init) ''t1'') = Some ([''a'', ''b''], 1)
   \<and> \<not> withinCapacity (run lowered init)"
proof -
  have a: "allowedRun lowered init"
    by (simp add: lowered_def one_timer_def eval_defs)
  have v: "map_option (\<lambda>t. (connectedDevices t, maxConnectionsAllowed t))
        (timers (run lowered init) ''t1'') = Some ([''a'', ''b''], 1)"
    by (simp add: lowered_def one_timer_def eval_defs)
  from v obtain t where t: "timers (run lowered init) ''t1'' = Some t"
    and d: "connectedDevices t = [''a'', ''b'']" and m: "maxConnectionsAllowed t = 1"
    by auto
  have "\<not> withinCapacity (run lowered init)"
  proof
    assume "withinCapacity (run lowered init)"
    with t have "of_nat (length (connectedDevices t)) \<le> maxConnectionsAllowed t"
      unfolding withinCapacity_def by blast
    with d m show False by simp
  qed
  with a v show ?thesis by simp
qed

subsection \<open>Tenant-scoped listing\<close>

text \<open>
  Claim C2. In every reachable state, \<^verbatim>\<open>get-timers\<close> with a non-empty controller id
  \<open>c\<close> answers the caller with one \<^verbatim>\<open>timer-list\<close>, and every element of that list is
  the summary (id, name, duration, viewer count) of a timer of the registry whose
  \<open>controllerId\<close> is \<open>c\<close>. Reachable states include those where sessions joined other
  controllers' timers under the id \<open>c\<close>, since \<^verbatim>\<open>join-timer\<close> never touches
  \<^verbatim>\<open>controllerTimers\<close>.
\<close>

theorem timer_list_only_own:
  assumes "reachable s" and "c \<noteq> []"
  shows "snd (handle (GetTimers c) sock now gid s) = [(sock, TimerList (getTimersForController c s))]
       \<and> (\<forall>x \<in> set (getTimersForController c s).
            \<exists>t. timers s (sm_id x) = Some t \<and> controllerId t = Some c \<and> x = summarise t)"
proof -
  have "\<exists>t. timers s (sm_id x) = Some t \<and> controllerId t = Some c \<and> x = summarise t"
    if "x \<in> set (getTimersForController c s)" for x
  proof -
    from that obtain i t where i: "i \<in> set (get_or_empty (controllerTimers s) c)"
      and t: "timers s i = Some t" and x: "x = summarise t"
      by (auto simp: getTimersForController_def filter_Boolean_set split: option.splits)
    from reachable_ownedConsistent [OF assms(1)] i
    obtain t' where "timers s i = Some t'" "controllerId t' = Some c" "id_t t' = i"
      unfolding ownedConsistent_def by blast
    with t have "controllerId t = Some c" "id_t t = i"
      by simp_all
    with t x show ?thesis by (simp add: summarise_def)
  qed
  with assms(2) show ?thesis
    by (simp add: on_get_timers_def emitTimerListForController_def)
qed

text \<open>
  Socket \<open>b\<close> owns \<open>t2\<close> as controller \<open>c2\<close> and has joined \<open>t1\<close>, the timer of
  \<open>c1\<close>, under the id \<open>c2\<close>: the list of \<open>c2\<close> holds \<open>t2\<close> alone.
\<close>

theorem timer_list_only_own_witness:
  "reachable (run two_tenants init) \<and> ''c2'' \<noteq> []
   \<and> map_option (\<lambda>t. (connectedDevices t, controllerId t)) (timers (run two_tenants init) ''t1'')
       = Some ([''a'', ''b''], Some ''c1'')
   \<and> getTimersForController ''c2'' (run two_tenants init)
       = [\<lparr>sm_id = ''t2'', sm_name = ''Other'', sm_duration = 30, sm_connectedCount = 1\<rparr>]
   \<and> snd (handle (GetTimers ''c2'') ''b'' 4000 ''g4'' (run two_tenants init))
       = [(''b'', TimerList (getTimersForController ''c2'' (run two_tenants init)))]
   \<and> map_option controllerId (timers (run two_tenants init) ''t2'') = Some (Some ''c2'')"
proof -
  have a: "allowedRun two_tenants init"
    by (simp add: two_tenants_def one_timer_def eval_defs)
  have r: "reachable (run two_tenants init)"
    by (rule allowedRun_reachable [OF reachable_init a])
  have n: "''c2'' \<noteq> []" by simp
  have v: "map_option (\<lambda>t. (connectedDevices t, controllerId t)) (timers (run two_tenants init) ''t1'')
       = Some ([''a'', ''b''], Some ''c1'')"
    by (simp add: two_tenants_def one_timer_def eval_defs)
  have l: "getTimersForController ''c2'' (run two_tenants init)
       = [\<lparr>sm_id = ''t2'', sm_name = ''Other'', sm_duration = 30, sm_connectedCount = 1\<rparr>]"
    by (simp add: two_tenants_def one_timer_def eval_defs)
  from timer_list_only_own [OF r n, of "''b''" 4000 "''g4''"]
  have e: "snd (handle (GetTimers ''c2'') ''b'' 4000 ''g4'' (run two_tenants init))
       = [(''b'', TimerList (getTimersForController ''c2'' (run two_tenants init)))]"
    and o: "\<forall>x \<in> set (getTimersForController ''c2'' (run two_tenants init)).
            \<exists>t. timers (run two_tenants init) (sm_id x) = Some t
               \<and> controllerId t = Some ''c2'' \<and> x = summarise t"
    by blast+
  from o have "map_option controllerId (timers (run two_tenants init) ''t2'') = Some (Some ''c2'')"
    unfolding l by auto
  with r n v l e show ?thesis by simp
qed

subsection \<open>Commands under another controller's id\<close>

text \<open>
  Claim C4. A start, pause, reset, set, adjust, message, styling, flash or delete
  command that names an existing timer and a controller id other than the timer's
  \<open>controllerId\<close> returns the state as it was and emits nothing, to the caller or to
  anyone else.
\<close>

theorem foreign_controller_dropped:
  assumes "mutates cmd = Some (i, c)" and "timers s i = Some t" and "controllerId t \<noteq> Some c"
  shows "handle cmd sock now gid s = (s, [])"
  using assms by (cases cmd) (simp_all add: control_def on_delete_timer_def)

theorem foreign_controller_dropped_witness:
  "mutates (StartTimer ''t1'' ''c2'') = Some (''t1'', ''c2'')
   \<and> map_option controllerId (timers (run one_timer init) ''t1'') = Some (Some ''c1'')
   \<and> handle (StartTimer ''t1'' ''c2'') ''b'' 2000 ''g2'' (run one_timer init)
       = (run one_timer init, [])"
proof -
  obtain t where t: "timers (run one_timer init) ''t1'' = Some t"
    and o: "controllerId t = Some ''c1''"
    by (simp add: one_timer_def eval_defs)
  from o have n: "controllerId t \<noteq> Some ''c2''" by simp
  have m: "mutates (StartTimer ''t1'' ''c2'') = Some (''t1'', ''c2'')" by simp
  show ?thesis
    using foreign_controller_dropped [OF m t n, of "''b''" 2000 "''g2''"] t o by simp
qed

subsection \<open>The quota of timers\<close>

text \<open>
  Claim C7. When \<^verbatim>\<open>create-timer\<close> comes with a controller id that already has at
  least \<^verbatim>\<open>maxTimersAllowed\<close> timers in \<^verbatim>\<open>controllerTimers\<close> (3 when the payload
  gives none), the handler emits \<^verbatim>\<open>limit-exceeded\<close> of type \<^verbatim>\<open>timers\<close> to the
  requester, and nothing else, and the whole state (the registry, the owned sets, every
  timer) is as before.
\<close>

theorem create_over_quota_rejected:
  assumes "c \<noteq> []" and "defaulted mt 3 = Num n"
    and "n \<le> of_nat (length (get_or_empty (controllerTimers s) c))"
  shows "handle (CreateTimer nm d m mt c sty) sock now gid s
           = (s, [(sock, LimitExceeded None ''timers'' (Num n))])"
  using assms by (simp add: on_create_timer_def size_ge_def Let_def)

theorem create_over_quota_rejected_witness:
  "''c1'' \<noteq> [] \<and> defaulted (Num 1) 3 = Num 1
   \<and> (1::rat) \<le> of_nat (length (get_or_empty (controllerTimers (run one_timer init)) ''c1''))
   \<and> handle (CreateTimer ''Second'' 30 Undefined (Num 1) ''c1'' None) ''a'' 2000 ''t2''
         (run one_timer init)
       = (run one_timer init, [(''a'', LimitExceeded None ''timers'' (Num 1))])"
proof -
  have a: "''c1'' \<noteq> []" by simp
  have b: "defaulted (Num 1) 3 = Num 1" by (simp add: defaulted_def)
  have c: "(1::rat) \<le> of_nat (length (get_or_empty (controllerTimers (run one_timer init)) ''c1''))"
    by (simp add: one_timer_def eval_defs)
  show ?thesis
    using a b c create_over_quota_rejected [OF a b c] by simp
qed

subsection \<open>A timer with one slot\<close>




subsection \<open>Ticks\<close>



subsection \<open>Joining a second timer\<close>

text \<open>
  Claim C9, as amended. \<^verbatim>\<open>deviceToTimer\<close> holds at most one timer id for a session.
  When a connected session that is a device of timer \<open>a\<close> joins another timer \<open>b\<close>
  and receives \<^verbatim>\<open>timer-joined\<close>, its entry in \<^verbatim>\<open>deviceToTimer\<close> becomes \<open>b\<close> and it
  is a device of \<open>b\<close>; timer \<open>a\<close> is left exactly as it was, so the session is still
  one of its connected devices.
\<close>

theorem join_keeps_earlier_membership:
  assumes "timers s a = Some ta" and "sock \<in> set (connectedDevices ta)" and "a \<noteq> b"
    and "sock \<in> sockets s"
    and "(sock, TimerJoined x) \<in> set (snd (handle (JoinTimer b c m) sock now gid s))"
  shows "deviceToTimer (fst (handle (JoinTimer b c m) sock now gid s)) sock = Some b
       \<and> (\<exists>tb. timers (fst (handle (JoinTimer b c m) sock now gid s)) b = Some tb
               \<and> sock \<in> set (connectedDevices tb))
       \<and> timers (fst (handle (JoinTimer b c m) sock now gid s)) a = Some ta"
proof -
  from assms(5) have "(sock, TimerJoined x) \<in> set (snd (on_join_timer sock now b c m s))"
    by simp
  from join_success [OF this] obtain t where t: "timers s b = Some t" and c: "c \<noteq> []"
    and lt: "of_nat (length (connectedDevices t)) < nullish m (maxConnectionsAllowed t)"
    by blast
  have d: "deviceToTimer (fst (on_join_timer sock now b c m s)) sock = Some b"
    using t c lt by (simp add: on_join_timer_def addDevice_cases Let_def split_beta)
  have "sock \<in> set (connectedDevices (fst (snd (addDevice sock now (sockets s)
            (t\<lparr>maxConnectionsAllowed := nullish m (maxConnectionsAllowed t)\<rparr>)))))"
    using lt assms(4) by (simp add: addDevice_cases update_fst set_set_add)
  with t c have m: "\<exists>tb. timers (fst (on_join_timer sock now b c m s)) b = Some tb
               \<and> sock \<in> set (connectedDevices tb)"
    by (simp add: join_timers)
  have "timers (fst (on_join_timer sock now b c m s)) a = Some ta"
    using assms(1,3) by (simp add: join_timers)
  with d m show ?thesis by simp
qed

text \<open>Socket \<open>a\<close>, the device of its own timer \<open>t1\<close>, joins \<open>t2\<close>.\<close>

theorem join_keeps_earlier_membership_witness:
  "map_option connectedDevices (timers (run two_timers init) ''t1'') = Some [''a'']
   \<and> ''t1'' \<noteq> ''t2'' \<and> ''a'' \<in> sockets (run two_timers init)
   \<and> deviceToTimer (run two_timers init) ''a'' = Some ''t1''
   \<and> deviceToTimer (fst (handle (JoinTimer ''t2'' ''c1'' Undefined) ''a'' 3000 ''g3''
                            (run two_timers init))) ''a'' = Some ''t2''
   \<and> timers (fst (handle (JoinTimer ''t2'' ''c1'' Undefined) ''a'' 3000 ''g3''
                            (run two_timers init))) ''t1''
       = timers (run two_timers init) ''t1''"
proof -
  have v: "map_option connectedDevices (timers (run two_timers init) ''t1'') = Some [''a'']"
    by (simp add: two_timers_def one_timer_def eval_defs)
  then obtain ta where ta: "timers (run two_timers init) ''t1'' = Some ta"
    and d: "''a'' \<in> set (connectedDevices ta)"
    by auto
  have n: "''t1'' \<noteq> ''t2''" by simp
  have k: "''a'' \<in> sockets (run two_timers init)"
    by (simp add: two_timers_def one_timer_def eval_defs)
  have o: "deviceToTimer (run two_timers init) ''a'' = Some ''t1''"
    by (simp add: two_timers_def one_timer_def eval_defs)
  have j: "(''a'', TimerJoined
        \<lparr>st_id = ''t2'', st_name = ''Other'', st_duration = 30, st_remaining = 30,
          st_isRunning = False, st_message = [], st_backgroundColor = ''#1f2937'',
          st_textColor = ''#ffffff'', st_fontSize = ''text-6xl'', st_isFlashing = False,
          st_connectedCount = 2,
          st_styling = \<lparr>sty_backgroundColor = ''#1f2937'', sty_textColor = ''#ffffff'',
                         sty_fontSize = ''text-6xl'', sty_timerView = ''normal''\<rparr>\<rparr>)
      \<in> set (snd (handle (JoinTimer ''t2'' ''c1'' Undefined) ''a'' 3000 ''g3'' (run two_timers init)))"
    by (simp add: two_timers_def one_timer_def eval_defs)
  from join_keeps_earlier_membership [OF ta d n k j] ta v n k o
  show ?thesis by simp
qed

text \<open>After that join, \<open>a\<close> is a connected device of \<open>t2\<close> and of \<open>t1\<close>.\<close>

theorem still_viewer_of_first_counterexample:
  "map_option connectedDevices
     (timers (fst (step (Message ''a'' 3000 ''g3'' (JoinTimer ''t2'' ''c1'' Undefined))
                     (run two_timers init))) ''t1'') = Some [''a'']
   \<and> map_option connectedDevices
     (timers (fst (step (Message ''a'' 3000 ''g3'' (JoinTimer ''t2'' ''c1'' Undefined))
                     (run two_timers init))) ''t2'') = Some [''b'', ''a'']
   \<and> (''a'', TimerJoined
        \<lparr>st_id = ''t2'', st_name = ''Other'', st_duration = 30, st_remaining = 30,
          st_isRunning = False, st_message = [], st_backgroundColor = ''#1f2937'',
          st_textColor = ''#ffffff'', st_fontSize = ''text-6xl'', st_isFlashing = False,
          st_connectedCount = 2,
          st_styling = \<lparr>sty_backgroundColor = ''#1f2937'', sty_textColor = ''#ffffff'',
                         sty_fontSize = ''text-6xl'', sty_timerView = ''normal''\<rparr>\<rparr>)
       \<in> set (snd (step (Message ''a'' 3000 ''g3'' (JoinTimer ''t2'' ''c1'' Undefined))
                     (run two_timers init)))"
  by (simp add: two_timers_def one_timer_def eval_defs)

subsection \<open>Capacity supplied by the caller\<close>

text \<open>
  Claim C10. A \<^verbatim>\<open>join-timer\<close> or \<^verbatim>\<open>view-timer\<close> that names an existing timer,
  gives any non-empty controller id (the timer's owner or not) and supplies the number
  \<open>m\<close> as \<^verbatim>\<open>maxConnectionsAllowed\<close> leaves the timer with capacity \<open>m\<close>. The check
  of \<^verbatim>\<open>addDevice\<close> is made against \<open>m\<close>: if the timer has fewer than \<open>m\<close> devices
  the caller is added (and the broadcast drops the devices that are gone); otherwise,
  also when \<open>m\<close> is below the current count, the set of devices is unchanged, nobody
  is evicted, and the caller receives \<^verbatim>\<open>timer-full\<close>.
\<close>

theorem join_overwrites_capacity:
  assumes "c \<noteq> []" and "timers s i = Some t"
    and "cmd = JoinTimer i c (Num m) \<or> cmd = ViewTimer i c (Num m)"
  shows "map_option maxConnectionsAllowed (timers (fst (handle cmd sock now gid s)) i) = Some m
       \<and> map_option connectedDevices (timers (fst (handle cmd sock now gid s)) i)
           = Some (if of_nat (length (connectedDevices t)) < m
                   then filter (\<lambda>d. d \<in> sockets s) (set_add sock (connectedDevices t))
                   else connectedDevices t)
       \<and> (\<not> of_nat (length (connectedDevices t)) < m \<longrightarrow>
            (sock, TimerFull i sock (cmd = ViewTimer i c (Num m)))
               \<in> set (snd (handle cmd sock now gid s)))"
proof (cases "of_nat (length (connectedDevices t)) < m")
  case True
  obtain t' es where u: "update now (sockets s)
      (t\<lparr>maxConnectionsAllowed := m, connectedDevices := set_add sock (connectedDevices t)\<rparr>) = (t', es)"
    by (cases "update now (sockets s)
      (t\<lparr>maxConnectionsAllowed := m, connectedDevices := set_add sock (connectedDevices t)\<rparr>)")
  from update_fst [of now "sockets s"
      "t\<lparr>maxConnectionsAllowed := m, connectedDevices := set_add sock (connectedDevices t)\<rparr>"] u
  have "maxConnectionsAllowed t' = m"
    and "connectedDevices t' = filter (\<lambda>d. d \<in> sockets s) (set_add sock (connectedDevices t))"
    by auto
  with assms True u show ?thesis
    by (auto simp: on_join_timer_def on_view_timer_def addDevice_def nullish_def Let_def)
next
  case False
  with assms show ?thesis
    by (auto simp: on_join_timer_def on_view_timer_def addDevice_def nullish_def Let_def)
qed

text \<open>
  Socket \<open>b\<close> asks to join the timer of \<open>c1\<close>, which has one device, under the id
  \<open>zz\<close> with a capacity of 0.
\<close>

theorem join_overwrites_capacity_witness:
  "''zz'' \<noteq> []
   \<and> map_option (\<lambda>t. (maxConnectionsAllowed t, connectedDevices t, controllerId t))
       (timers (run one_timer init) ''t1'') = Some (4, [''a''], Some ''c1'')
   \<and> map_option (\<lambda>t. (maxConnectionsAllowed t, connectedDevices t))
       (timers (fst (handle (JoinTimer ''t1'' ''zz'' (Num 0)) ''b'' 2000 ''g2'' (run one_timer init)))
          ''t1'') = Some (0, [''a''])
   \<and> (''b'', TimerFull ''t1'' ''b'' False)
       \<in> set (snd (handle (JoinTimer ''t1'' ''zz'' (Num 0)) ''b'' 2000 ''g2'' (run one_timer init)))"
proof -
  have c: "''zz'' \<noteq> []" by simp
  have v: "map_option (\<lambda>t. (maxConnectionsAllowed t, connectedDevices t, controllerId t))
       (timers (run one_timer init) ''t1'') = Some (4, [''a''], Some ''c1'')"
    by (simp add: one_timer_def eval_defs)
  then obtain t where t: "timers (run one_timer init) ''t1'' = Some t"
    and d: "connectedDevices t = [''a'']"
    by auto
  have e: "JoinTimer ''t1'' ''zz'' (Num 0) = JoinTimer ''t1'' ''zz'' (Num 0)
           \<or> JoinTimer ''t1'' ''zz'' (Num 0) = ViewTimer ''t1'' ''zz'' (Num 0)"
    by simp
  from join_overwrites_capacity [OF c t e, of "''b''" 2000 "''g2''"] d
  have "map_option (\<lambda>t. (maxConnectionsAllowed t, connectedDevices t))
       (timers (fst (handle (JoinTimer ''t1'' ''zz'' (Num 0)) ''b'' 2000 ''g2'' (run one_timer init)))
          ''t1'') = Some (0, [''a''])"
    and "(''b'', TimerFull ''t1'' ''b'' False)
       \<in> set (snd (handle (JoinTimer ''t1'' ''zz'' (Num 0)) ''b'' 2000 ''g2'' (run one_timer init)))"
    by auto
  with c v show ?thesis by simp
qed

end
